theory Spec2Isabelle
  imports Main
begin

section \<open>okta2aws: exchanging Okta credentials for temporary AWS credentials\<close>

text \<open>
  The program \<^verbatim>\<open>okta2aws.py\<close> has five functions: \<^verbatim>\<open>getOktaUrl\<close>,
  \<^verbatim>\<open>oktaAuth\<close>, \<^verbatim>\<open>oktaGetSamlResponse\<close>, \<^verbatim>\<open>awsAssumeRole\<close> and
  \<^verbatim>\<open>assume\<close>, which calls the other four in sequence. Each is embedded below
  under its own name. A Python \<^verbatim>\<open>str\<close> is a \<open>string\<close> holding the UTF-8 bytes of
  its code points, a \<^verbatim>\<open>bytes\<close> object is a \<open>string\<close> holding its bytes, and an
  exception is a value of \<open>py_exception\<close> on the left of a sum.
\<close>

subsection \<open>Exceptions\<close>

text \<open>
  The program defines no exception class and has no \<^verbatim>\<open>try\<close> statement. What ends
  a run early is an exception of Python itself (\<^verbatim>\<open>TypeError\<close>, \<^verbatim>\<open>KeyError\<close>,
  \<^verbatim>\<open>IndexError\<close>, \<^verbatim>\<open>AttributeError\<close>, \<^verbatim>\<open>ValueError\<close>,
  \<^verbatim>\<open>UnicodeDecodeError\<close>) or of a library (\<^verbatim>\<open>requests\<close>, \<^verbatim>\<open>json\<close>,
  \<^verbatim>\<open>expat\<close>, \<^verbatim>\<open>binascii\<close>, \<^verbatim>\<open>bs4\<close>); none is caught, so it leaves the
  function that raised it and every caller.
\<close>

datatype py_exception =
    TypeError
  | KeyError
  | IndexError
  | AttributeError
  | ValueError
  | UnicodeDecodeError
  | RequestException
  | JSONDecodeError
  | ExpatError
  | BinasciiError
  | ParserRejectedMarkup

subsection \<open>Operations of \<^verbatim>\<open>str\<close> and \<^verbatim>\<open>bytes\<close>\<close>

definition is_ascii :: "char \<Rightarrow> bool" where
  "is_ascii c = ((of_char c :: nat) < 128)"

definition isascii :: "string \<Rightarrow> bool" where
  "isascii s = list_all is_ascii s"

definition ascii_upper :: "char \<Rightarrow> bool" where
  "ascii_upper c = (65 \<le> (of_char c :: nat) \<and> (of_char c :: nat) \<le> 90)"

definition ascii_lower :: "char \<Rightarrow> bool" where
  "ascii_lower c = (97 \<le> (of_char c :: nat) \<and> (of_char c :: nat) \<le> 122)"

definition ascii_digit :: "char \<Rightarrow> bool" where
  "ascii_digit c = (48 \<le> (of_char c :: nat) \<and> (of_char c :: nat) \<le> 57)"

definition ascii_alpha :: "char \<Rightarrow> bool" where
  "ascii_alpha c = (ascii_upper c \<or> ascii_lower c)"

text \<open>\<^verbatim>\<open>str.lower()\<close>, on the characters it is applied to here (ASCII).\<close>

definition lower_char :: "char \<Rightarrow> char" where
  "lower_char c = (if ascii_upper c then char_of ((of_char c :: nat) + 32) else c)"

definition lower :: "string \<Rightarrow> string" where
  "lower s = map lower_char s"

text \<open>\<^verbatim>\<open>c in s\<close> for a one-character \<^verbatim>\<open>c\<close>.\<close>

definition contains :: "char \<Rightarrow> string \<Rightarrow> bool" where
  "contains c s = (c \<in> set s)"

definition hexdig :: "char \<Rightarrow> bool" where
  "hexdig c = contains c ''0123456789ABCDEFabcdef''"

text \<open>\<^verbatim>\<open>s.replace(c, "")\<close> for a one-character \<^verbatim>\<open>c\<close>.\<close>

definition remove_char :: "char \<Rightarrow> string \<Rightarrow> string" where
  "remove_char c s = filter (\<lambda>x. x \<noteq> c) s"

text \<open>\<^verbatim>\<open>s.replace(a, b)\<close> for one-character \<^verbatim>\<open>a\<close> and \<^verbatim>\<open>b\<close>.\<close>

definition replace_char :: "char \<Rightarrow> char \<Rightarrow> string \<Rightarrow> string" where
  "replace_char a b s = map (\<lambda>x. if x = a then b else x) s"

text \<open>
  \<^verbatim>\<open>s.partition(c)\<close>: the text before the first \<^verbatim>\<open>c\<close> and the text after it
  (the whole of \<^verbatim>\<open>s\<close> and the empty string when \<^verbatim>\<open>c\<close> is absent).
\<close>

definition partition_before :: "char \<Rightarrow> string \<Rightarrow> string" where
  "partition_before c s = takeWhile (\<lambda>x. x \<noteq> c) s"

definition partition_after :: "char \<Rightarrow> string \<Rightarrow> string" where
  "partition_after c s = drop 1 (dropWhile (\<lambda>x. x \<noteq> c) s)"

text \<open>
  \<^verbatim>\<open>s.split(c)\<close> for a one-character separator: the segments between the
  occurrences of \<^verbatim>\<open>c\<close>, one more than there are occurrences.
\<close>

fun split_sep :: "char \<Rightarrow> string \<Rightarrow> string list" where
  "split_sep c [] = [[]]"
| "split_sep c (x # xs) =
     (if x = c then [] # split_sep c xs
      else (case split_sep c xs of
              [] \<Rightarrow> [[x]]
            | segment # segments \<Rightarrow> (x # segment) # segments))"

subsection \<open>UTF-8\<close>

text \<open>
  \<^verbatim>\<open>bytes.decode()\<close> reads UTF-8. \<open>utf8_scan\<close> looks at the head of a byte
  string: it gives the length of the well-formed sequence that starts there, or, where
  none does, the length of the longest prefix of a well-formed sequence (at least one
  byte), which is the span that \<^verbatim>\<open>errors='replace'\<close> replaces by U+FFFD.
\<close>

definition continuation_byte :: "char \<Rightarrow> bool" where
  "continuation_byte c = (128 \<le> (of_char c :: nat) \<and> (of_char c :: nat) \<le> 191)"

definition second_byte_ok :: "nat \<Rightarrow> char \<Rightarrow> bool" where
  "second_byte_ok b0 c =
     ((if b0 = 224 then 160 else if b0 = 240 then 144 else 128) \<le> (of_char c :: nat)
      \<and> (of_char c :: nat) \<le> (if b0 = 237 then 159 else if b0 = 244 then 143 else 191))"

fun utf8_scan :: "string \<Rightarrow> nat \<times> bool" where
  "utf8_scan [] = (0, True)"
| "utf8_scan (c # cs) =
     (let b0 = (of_char c :: nat) in
      if b0 < 128 then (1, True)
      else if b0 < 194 \<or> 244 < b0 then (1, False)
      else
        (case cs of
           [] \<Rightarrow> (1, False)
         | c1 # cs1 \<Rightarrow>
             if \<not> second_byte_ok b0 c1 then (1, False)
             else if b0 < 224 then (2, True)
             else
               (case cs1 of
                  [] \<Rightarrow> (2, False)
                | c2 # cs2 \<Rightarrow>
                    if \<not> continuation_byte c2 then (2, False)
                    else if b0 < 240 then (3, True)
                    else
                      (case cs2 of
                         [] \<Rightarrow> (3, False)
                       | c3 # cs3 \<Rightarrow>
                           if continuation_byte c3 then (4, True) else (3, False)))))"

lemma utf8_scan_pos: "s \<noteq> [] \<Longrightarrow> 0 < fst (utf8_scan s)"
  by (cases s) (auto simp: Let_def split: list.splits)

function utf8_chunks :: "string \<Rightarrow> (string \<times> bool) list" where
  "utf8_chunks [] = []"
| "utf8_chunks (c # cs) =
     (take (fst (utf8_scan (c # cs))) (c # cs), snd (utf8_scan (c # cs)))
       # utf8_chunks (drop (fst (utf8_scan (c # cs))) (c # cs))"
  by pat_completeness auto
termination
proof (relation "measure length")
  show "wf (measure length)" by simp
next
  fix c :: char and cs :: string
  have "0 < fst (utf8_scan (c # cs))"
    by (rule utf8_scan_pos) simp
  then show "(drop (fst (utf8_scan (c # cs))) (c # cs), c # cs) \<in> measure length"
    by simp
qed

text \<open>\<^verbatim>\<open>bs.decode()\<close>: UTF-8, \<^verbatim>\<open>errors='strict'\<close>.\<close>

definition bytes_decode :: "string \<Rightarrow> py_exception + string" where
  "bytes_decode bs =
     (if list_all snd (utf8_chunks bs) then Inr bs else Inl UnicodeDecodeError)"

text \<open>\<^verbatim>\<open>bs.decode('utf-8', 'replace')\<close>; U+FFFD is \<^verbatim>\<open>EF BF BD\<close> in UTF-8.\<close>

definition replacement_character :: string where
  "replacement_character = [CHR 0xEF, CHR 0xBF, CHR 0xBD]"

definition bytes_decode_replace :: "string \<Rightarrow> string" where
  "bytes_decode_replace bs =
     concat (map (\<lambda>(chunk, ok). if ok then chunk else replacement_character) (utf8_chunks bs))"

subsection \<open>\<^verbatim>\<open>urllib.parse.unquote\<close> and \<^verbatim>\<open>urllib.parse.quote_plus\<close>\<close>

definition hex_value :: "char \<Rightarrow> nat" where
  "hex_value c =
     (if ascii_digit c then (of_char c :: nat) - 48
      else if ascii_upper c then (of_char c :: nat) - 55
      else (of_char c :: nat) - 87)"

text \<open>
  One item of \<^verbatim>\<open>string.split(b'%')\<close> after the first, in \<^verbatim>\<open>unquote_to_bytes\<close>:
  two leading hexadecimal digits become their byte, anything else keeps its \<^verbatim>\<open>%\<close>.
\<close>

definition unquote_item :: "string \<Rightarrow> string" where
  "unquote_item item =
     (if length (take 2 item) = 2 \<and> list_all hexdig (take 2 item)
      then char_of (hex_value (item ! 0) * 16 + hex_value (item ! 1)) # drop 2 item
      else CHR ''%'' # item)"

definition unquote_to_bytes :: "string \<Rightarrow> string" where
  "unquote_to_bytes s =
     (let bits = split_sep (CHR ''%'') s
      in if length bits = 1 then s
         else hd bits @ concat (map unquote_item (tl bits)))"

text \<open>
  \<^verbatim>\<open>unquote\<close> returns a string without \<^verbatim>\<open>%\<close> as it is. Otherwise it splits
  the string into its runs of ASCII characters and the text between them
  (\<^verbatim>\<open>_asciire.split\<close>), and replaces each ASCII run by
  \<^verbatim>\<open>unquote_to_bytes(run).decode('utf-8', 'replace')\<close>.
\<close>

function unquote_runs :: "string \<Rightarrow> string" where
  "unquote_runs [] = []"
| "unquote_runs (c # cs) =
     (if is_ascii c
      then bytes_decode_replace (unquote_to_bytes (takeWhile is_ascii (c # cs)))
             @ unquote_runs (dropWhile is_ascii cs)
      else takeWhile (\<lambda>x. \<not> is_ascii x) (c # cs)
             @ unquote_runs (dropWhile (\<lambda>x. \<not> is_ascii x) cs))"
  by pat_completeness auto
termination
  by (relation "measure length") (auto simp: less_Suc_eq_le length_dropWhile_le)

definition unquote :: "string \<Rightarrow> string" where
  "unquote s = (if \<not> contains (CHR ''%'') s then s else unquote_runs s)"

definition always_safe :: string where
  "always_safe =
     ''ABCDEFGHIJKLMNOPQRSTUVWXYZ'' @ ''abcdefghijklmnopqrstuvwxyz'' @ ''0123456789'' @ ''_.-~''"

definition hex_digit_upper :: "nat \<Rightarrow> char" where
  "hex_digit_upper n = ''0123456789ABCDEF'' ! n"

text \<open>\<^verbatim>\<open>_Quoter.__missing__\<close>: a safe byte as it is, any other as \<^verbatim>\<open>'%{:02X}'\<close>.\<close>

definition quoter :: "string \<Rightarrow> char \<Rightarrow> string" where
  "quoter safe c =
     (if contains c (always_safe @ safe) then [c]
      else [CHR ''%'', hex_digit_upper ((of_char c :: nat) div 16),
            hex_digit_upper ((of_char c :: nat) mod 16)])"

definition quote_from_bytes :: "string \<Rightarrow> string \<Rightarrow> string" where
  "quote_from_bytes bs safe = concat (map (quoter safe) bs)"

text \<open>\<^verbatim>\<open>quote(string, safe)\<close> of a \<^verbatim>\<open>str\<close>: its UTF-8 bytes, quoted.\<close>

definition quote :: "string \<Rightarrow> string \<Rightarrow> string" where
  "quote s safe = (if s = [] then s else quote_from_bytes s (filter is_ascii safe))"

definition quote_plus :: "string \<Rightarrow> string" where
  "quote_plus s =
     (if \<not> contains (CHR '' '') s then quote s []
      else replace_char (CHR '' '') (CHR ''+'') (quote s '' ''))"

subsection \<open>Python values\<close>

text \<open>
  What \<^verbatim>\<open>response.json()\<close> and \<^verbatim>\<open>xmltodict.parse\<close> return: \<^verbatim>\<open>None\<close>,
  booleans, numbers, strings, lists and dictionaries with string keys. A dictionary is
  the list of its items in order, with one item per key; a float is kept as its text.
\<close>

datatype pyval =
    PyNone
  | PyBool bool
  | PyInt int
  | PyFloat string
  | PyStr string
  | PyList "pyval list"
  | PyDict "(string \<times> pyval) list"

datatype pykey = KStr string | KInt int

text \<open>\<^verbatim>\<open>xs[i]\<close> on a list: a negative index counts from the end.\<close>

definition list_getitem :: "'a list \<Rightarrow> int \<Rightarrow> py_exception + 'a" where
  "list_getitem xs i =
     (if 0 \<le> i \<and> i < int (length xs) then Inr (xs ! nat i)
      else if i < 0 \<and> - int (length xs) \<le> i then Inr (xs ! nat (int (length xs) + i))
      else Inl IndexError)"

text \<open>The code points of a \<^verbatim>\<open>str\<close>, each as its UTF-8 bytes.\<close>

definition code_points :: "string \<Rightarrow> string list" where
  "code_points s = map fst (utf8_chunks s)"

text \<open>
  \<^verbatim>\<open>v[k]\<close>: a dictionary raises \<^verbatim>\<open>KeyError\<close> for a key it does not hold, a
  list and a string raise \<^verbatim>\<open>IndexError\<close> out of range and \<^verbatim>\<open>TypeError\<close> for
  a string index, and \<^verbatim>\<open>None\<close>, booleans and numbers are not subscriptable.
\<close>

fun py_getitem :: "pyval \<Rightarrow> pykey \<Rightarrow> py_exception + pyval" where
  "py_getitem (PyDict d) (KStr k) =
     (case map_of d k of None \<Rightarrow> Inl KeyError | Some v \<Rightarrow> Inr v)"
| "py_getitem (PyDict d) (KInt i) = Inl KeyError"
| "py_getitem (PyList xs) (KInt i) = list_getitem xs i"
| "py_getitem (PyList xs) (KStr k) = Inl TypeError"
| "py_getitem (PyStr s) (KInt i) =
     (case list_getitem (code_points s) i of Inl e \<Rightarrow> Inl e | Inr c \<Rightarrow> Inr (PyStr c))"
| "py_getitem (PyStr s) (KStr k) = Inl TypeError"
| "py_getitem PyNone k = Inl TypeError"
| "py_getitem (PyBool b) k = Inl TypeError"
| "py_getitem (PyInt n) k = Inl TypeError"
| "py_getitem (PyFloat f) k = Inl TypeError"

text \<open>\<^verbatim>\<open>v[k1][k2]...[kn]\<close>, left to right; the first exception ends it.\<close>

fun py_getitems :: "pyval \<Rightarrow> pykey list \<Rightarrow> py_exception + pyval" where
  "py_getitems v [] = Inr v"
| "py_getitems v (k # ks) =
     (case py_getitem v k of Inl e \<Rightarrow> Inl e | Inr w \<Rightarrow> py_getitems w ks)"

text \<open>\<^verbatim>\<open>s + v\<close> for a string \<^verbatim>\<open>s\<close>: only a string can be added.\<close>

definition str_add :: "string \<Rightarrow> pyval \<Rightarrow> py_exception + string" where
  "str_add s v = (case v of PyStr t \<Rightarrow> Inr (s @ t) | _ \<Rightarrow> Inl TypeError)"

text \<open>\<^verbatim>\<open>v.split(",")\<close>: only a string has the method.\<close>

definition py_split :: "pyval \<Rightarrow> char \<Rightarrow> py_exception + string list" where
  "py_split v c = (case v of PyStr s \<Rightarrow> Inr (split_sep c s) | _ \<Rightarrow> Inl AttributeError)"

subsection \<open>The document tree of \<^verbatim>\<open>BeautifulSoup\<close>\<close>

datatype html_node =
    Tag string "(string \<times> string) list" "html_node list"
  | NavigableString string

fun subtree :: "html_node \<Rightarrow> html_node list" where
  "subtree (Tag n attrs children) = Tag n attrs children # concat (map subtree children)"
| "subtree (NavigableString s) = [NavigableString s]"

definition soup_descendants :: "html_node list \<Rightarrow> html_node list" where
  "soup_descendants soup = concat (map subtree soup)"

definition tag_matches :: "string \<Rightarrow> (string \<times> string) list \<Rightarrow> html_node \<Rightarrow> bool" where
  "tag_matches name attrs node =
     (case node of
        Tag n node_attrs children \<Rightarrow>
          n = name \<and> list_all (\<lambda>(k, v). map_of node_attrs k = Some v) attrs
      | NavigableString s \<Rightarrow> False)"

text \<open>\<^verbatim>\<open>bs.find(name, attrs)\<close>: the first matching tag in document order, or \<^verbatim>\<open>None\<close>.\<close>

definition soup_find :: "string \<Rightarrow> (string \<times> string) list \<Rightarrow> html_node list \<Rightarrow> html_node option" where
  "soup_find name attrs soup = List.find (tag_matches name attrs) (soup_descendants soup)"

text \<open>\<^verbatim>\<open>found[key]\<close> on the result of \<^verbatim>\<open>find\<close>.\<close>

definition tag_getitem :: "html_node option \<Rightarrow> string \<Rightarrow> py_exception + string" where
  "tag_getitem found key =
     (case found of
        None \<Rightarrow> Inl TypeError
      | Some (NavigableString s) \<Rightarrow> Inl TypeError
      | Some (Tag n node_attrs children) \<Rightarrow>
          (case map_of node_attrs key of None \<Rightarrow> Inl KeyError | Some v \<Rightarrow> Inr v))"

subsection \<open>The libraries and the network\<close>

text \<open>
  The functions of \<^verbatim>\<open>json\<close>, \<^verbatim>\<open>requests\<close>, \<^verbatim>\<open>bs4\<close>, \<^verbatim>\<open>base64\<close>,
  \<^verbatim>\<open>xmltodict\<close>, \<^verbatim>\<open>unicodedata\<close> and \<^verbatim>\<open>ipaddress\<close> that the program calls
  are the fields of \<open>pylib\<close>: every theorem holds for whatever they compute.
\<close>

datatype request =
    POST string "(string \<times> string) list" string
  | GET string

record response =
  status_code :: nat
  resp_headers :: "(string \<times> string) list"
  content :: string

datatype ip_version = IPv4Address | IPv6Address

record pylib =
  nfkc_normalize :: "string \<Rightarrow> string"
  ip_address :: "string \<Rightarrow> ip_version option"
  json_dumps :: "pyval \<Rightarrow> string"
  response_json :: "response \<Rightarrow> py_exception + pyval"
  BeautifulSoup :: "string \<Rightarrow> py_exception + html_node list"
  b64decode :: "string \<Rightarrow> py_exception + string"
  xmltodict_parse :: "string \<Rightarrow> py_exception + pyval"

text \<open>
  The servers: what a request gets back, given the requests made before it. A program
  runs from the list of the requests made so far and returns it extended, with its
  result or the exception that ended it.
\<close>

type_synonym network = "request list \<Rightarrow> request \<Rightarrow> py_exception + response"

type_synonym 'a io = "request list \<Rightarrow> (py_exception + 'a) \<times> request list"

definition io_return :: "'a \<Rightarrow> 'a io" where
  "io_return x = (\<lambda>log. (Inr x, log))"

definition io_lift :: "py_exception + 'a \<Rightarrow> 'a io" where
  "io_lift r = (\<lambda>log. (r, log))"

definition io_bind :: "'a io \<Rightarrow> ('a \<Rightarrow> 'b io) \<Rightarrow> 'b io" where
  "io_bind m f =
     (\<lambda>log. case m log of
               (Inl e, log') \<Rightarrow> (Inl e, log')
             | (Inr x, log') \<Rightarrow> f x log')"

definition requests_post :: "network \<Rightarrow> string \<Rightarrow> (string \<times> string) list \<Rightarrow> string \<Rightarrow> response io" where
  "requests_post net url headers data =
     (\<lambda>log. (net log (POST url headers data), log @ [POST url headers data]))"

definition requests_get :: "network \<Rightarrow> string \<Rightarrow> response io" where
  "requests_get net url = (\<lambda>log. (net log (GET url), log @ [GET url]))"

subsection \<open>\<^verbatim>\<open>urllib.parse.urlparse\<close>\<close>

text \<open>
  \<^verbatim>\<open>getOktaUrl\<close> rests on \<^verbatim>\<open>urllib.parse.urlparse\<close> of the Python standard
  library. It is embedded from CPython 3.11 (\<^verbatim>\<open>Lib/urllib/parse.py\<close>):
  \<^verbatim>\<open>urlparse\<close> calls \<^verbatim>\<open>urlsplit\<close> and then splits the parameters off the
  path. Two checks of \<^verbatim>\<open>urlsplit\<close> call further modules,
  \<^verbatim>\<open>unicodedata.normalize('NFKC', _)\<close> and \<^verbatim>\<open>ipaddress.ip_address\<close>; they
  are fields of \<open>pylib\<close>.
\<close>

record split_result =
  sr_scheme :: string
  sr_netloc :: string
  sr_path :: string
  sr_query :: string
  sr_fragment :: string

record parse_result =
  scheme :: string
  netloc :: string
  path :: string
  params :: string
  query :: string
  fragment :: string

definition scheme_chars :: string where
  "scheme_chars =
     ''abcdefghijklmnopqrstuvwxyz'' @ ''ABCDEFGHIJKLMNOPQRSTUVWXYZ'' @ ''0123456789'' @ ''+-.''"

definition c0_control_or_space :: "char \<Rightarrow> bool" where
  "c0_control_or_space c = ((of_char c :: nat) \<le> 32)"

definition unsafe_url_bytes_to_remove :: string where
  "unsafe_url_bytes_to_remove = [CHR 0x09, CHR 0x0D, CHR 0x0A]"

text \<open>\<^verbatim>\<open>_splitnetloc(url, 2)\<close>: the text from index 2 up to the first of \<^verbatim>\<open>/?#\<close>, and the rest.\<close>

definition netloc_delim :: "char \<Rightarrow> bool" where
  "netloc_delim c = contains c ''/?#''"

definition splitnetloc :: "string \<Rightarrow> string \<times> string" where
  "splitnetloc url =
     (takeWhile (\<lambda>c. \<not> netloc_delim c) (drop 2 url),
      dropWhile (\<lambda>c. \<not> netloc_delim c) (drop 2 url))"

text \<open>
  \<^verbatim>\<open>_check_bracketed_host\<close>: a host starting with \<^verbatim>\<open>v\<close> must match
  \<^verbatim>\<open>\Av[a-fA-F0-9]+\..+\Z\<close>; any other must be an IPv6 address for
  \<^verbatim>\<open>ipaddress.ip_address\<close>, which raises \<^verbatim>\<open>ValueError\<close> (here \<open>None\<close>) for
  a string that is no IP address.
\<close>

definition ipvfuture_ok :: "string \<Rightarrow> bool" where
  "ipvfuture_ok hostname =
     (let digits = takeWhile hexdig (drop 1 hostname);
          rest = dropWhile hexdig (drop 1 hostname)
      in digits \<noteq> [] \<and> take 1 rest = ''.'' \<and> drop 1 rest \<noteq> []
         \<and> \<not> contains (CHR 0x0A) (drop 1 rest))"

definition check_bracketed_host :: "pylib \<Rightarrow> string \<Rightarrow> py_exception + unit" where
  "check_bracketed_host env hostname =
     (if take 1 hostname = ''v'' then
        (if ipvfuture_ok hostname then Inr () else Inl ValueError)
      else
        (case ip_address env hostname of
           None \<Rightarrow> Inl ValueError
         | Some IPv4Address \<Rightarrow> Inl ValueError
         | Some IPv6Address \<Rightarrow> Inr ()))"

text \<open>
  \<^verbatim>\<open>_checknetloc\<close>: a netloc with a character outside ASCII is refused when its
  NFKC form (taken without \<^verbatim>\<open>@:#?\<close>) differs and holds one of \<^verbatim>\<open>/?#@:\<close>.
\<close>

definition checknetloc :: "pylib \<Rightarrow> string \<Rightarrow> py_exception + unit" where
  "checknetloc env nl =
     (if nl = [] \<or> isascii nl then Inr ()
      else
        (let n = remove_char (CHR ''?'') (remove_char (CHR ''#'')
                   (remove_char (CHR '':'') (remove_char (CHR ''@'') nl)));
             netloc2 = nfkc_normalize env n
         in if n = netloc2 then Inr ()
            else if list_ex (\<lambda>c. contains c netloc2) ''/?#@:'' then Inl ValueError
            else Inr ()))"

text \<open>The scheme that \<^verbatim>\<open>urlsplit\<close> finds, with the text after its colon.\<close>

definition split_scheme :: "string \<Rightarrow> string \<times> string" where
  "split_scheme url =
     (let pre = takeWhile (\<lambda>c. c \<noteq> CHR '':'') url
      in if contains (CHR '':'') url \<and> pre \<noteq> [] \<and> ascii_alpha (hd url)
            \<and> list_all (\<lambda>c. contains c scheme_chars) pre
         then (lower pre, drop (length pre + 1) url)
         else ([], url))"

definition urlsplit :: "pylib \<Rightarrow> string \<Rightarrow> py_exception + split_result" where
  "urlsplit env url0 =
     (let url1 = dropWhile c0_control_or_space url0;
          url2 = fold remove_char unsafe_url_bytes_to_remove url1;
          (sch, url3) = split_scheme url2;
          (nl, url4) = (if take 2 url3 = ''//'' then splitnetloc url3 else ([], url3));
          frag = (if contains (CHR ''#'') url4 then partition_after (CHR ''#'') url4 else []);
          url5 = (if contains (CHR ''#'') url4 then partition_before (CHR ''#'') url4 else url4);
          qry = (if contains (CHR ''?'') url5 then partition_after (CHR ''?'') url5 else []);
          url6 = (if contains (CHR ''?'') url5 then partition_before (CHR ''?'') url5 else url5);
          result = \<lparr>sr_scheme = sch, sr_netloc = nl, sr_path = url6,
                    sr_query = qry, sr_fragment = frag\<rparr>
      in if take 2 url3 = ''//''
            \<and> ((contains (CHR ''['') nl \<and> \<not> contains (CHR '']'') nl)
               \<or> (contains (CHR '']'') nl \<and> \<not> contains (CHR ''['') nl))
         then Inl ValueError
         else
           (case (if take 2 url3 = ''//'' \<and> contains (CHR ''['') nl \<and> contains (CHR '']'') nl
                  then check_bracketed_host env
                         (partition_before (CHR '']'') (partition_after (CHR ''['') nl))
                  else Inr ()) of
              Inl e \<Rightarrow> Inl e
            | Inr _ \<Rightarrow>
                (case checknetloc env nl of
                   Inl e \<Rightarrow> Inl e
                 | Inr _ \<Rightarrow> Inr result)))"

definition uses_params :: "string list" where
  "uses_params = ['''', ''ftp'', ''hdl'', ''prospero'', ''http'', ''imap'',
                  ''https'', ''shttp'', ''rtsp'', ''rtsps'', ''rtspu'', ''sip'',
                  ''sips'', ''mms'', ''sftp'', ''tel'']"

text \<open>
  \<^verbatim>\<open>_splitparams\<close>: the path is cut at the first \<^verbatim>\<open>;\<close> of its last segment
  (at \<^verbatim>\<open>url.find(';', url.rfind('/'))\<close>).
\<close>

definition splitparams :: "string \<Rightarrow> string \<times> string" where
  "splitparams url =
     (let start = (if contains (CHR ''/'') url
                   then length url - 1 - length (takeWhile (\<lambda>c. c \<noteq> CHR ''/'') (rev url))
                   else 0);
          i = start + length (takeWhile (\<lambda>c. c \<noteq> CHR '';'') (drop start url))
      in if contains (CHR ''/'') url \<and> \<not> contains (CHR '';'') (drop start url)
         then (url, [])
         else if \<not> contains (CHR '';'') (drop start url)
         then (take (length url - 1) url, url)
         else (take i url, drop (i + 1) url))"

definition urlparse :: "pylib \<Rightarrow> string \<Rightarrow> py_exception + parse_result" where
  "urlparse env url =
     (case urlsplit env url of
        Inl e \<Rightarrow> Inl e
      | Inr r \<Rightarrow>
          (let (p, prm) = (if sr_scheme r \<in> set uses_params \<and> contains (CHR '';'') (sr_path r)
                           then splitparams (sr_path r) else (sr_path r, []))
           in Inr \<lparr>scheme = sr_scheme r, netloc = sr_netloc r, path = p, params = prm,
                    query = sr_query r, fragment = sr_fragment r\<rparr>))"

subsection \<open>\<^verbatim>\<open>getOktaUrl\<close>\<close>

text \<open>
  \<^verbatim>\<open>
  def getOktaUrl(fullUrl):
      urlTuple = urllib.parse.urlparse(fullUrl)
      return urlTuple.scheme + "://" + urlTuple.netloc
  \<close>
\<close>

definition getOktaUrl :: "pylib \<Rightarrow> string \<Rightarrow> py_exception + string" where
  "getOktaUrl env fullUrl =
     (case urlparse env fullUrl of
        Inl e \<Rightarrow> Inl e
      | Inr urlTuple \<Rightarrow> Inr (scheme urlTuple @ ''://'' @ netloc urlTuple))"

subsection \<open>\<^verbatim>\<open>oktaAuth\<close>\<close>

text \<open>
  \<^verbatim>\<open>
  def oktaAuth(username,password,oktaUrl):
      oktaAuthUrl = oktaUrl + "/api/v1/authn"
      headerDict = { "Content-Type": "application/json; charset=utf-8" }
      oktaCreds = json.dumps({ "username":username, "password":password })
      response = requests.post( oktaAuthUrl, headers=headerDict, data=oktaCreds)
      return response.json()['sessionToken']
  \<close>
\<close>

definition oktaAuth :: "pylib \<Rightarrow> network \<Rightarrow> string \<Rightarrow> string \<Rightarrow> string \<Rightarrow> pyval io" where
  "oktaAuth lib net username password oktaUrl =
     (let oktaAuthUrl = oktaUrl @ ''/api/v1/authn'';
          headerDict = [(''Content-Type'', ''application/json; charset=utf-8'')];
          oktaCreds = json_dumps lib
            (PyDict [(''username'', PyStr username), (''password'', PyStr password)])
      in io_bind (requests_post net oktaAuthUrl headerDict oktaCreds) (\<lambda>response.
         io_bind (io_lift (response_json lib response)) (\<lambda>body.
         io_lift (py_getitem body (KStr ''sessionToken'')))))"

subsection \<open>\<^verbatim>\<open>oktaGetSamlResponse\<close>\<close>

text \<open>
  \<^verbatim>\<open>
  def oktaGetSamlResponse(oktaUrl,sessionToken,oktaForwardUrl):
      samlUrl = oktaUrl + "/login/sessionCookieRedirect?checkAccountSetupComplete=true&token="
      samlAuth = requests.get(samlUrl + sessionToken + "&redirectUrl=" + oktaForwardUrl)
      bs = BeautifulSoup(samlAuth._content.decode(),features="html.parser")
      samlResp = bs.find("input", {"name": "SAMLResponse"})['value']
      return urllib.parse.unquote(samlResp)
  \<close>
  The session token is whatever \<^verbatim>\<open>oktaAuth\<close> returned, a value of the JSON
  document: adding it to a string raises \<^verbatim>\<open>TypeError\<close> unless it is a string.
\<close>

definition oktaGetSamlResponse :: "pylib \<Rightarrow> network \<Rightarrow> string \<Rightarrow> pyval \<Rightarrow> string \<Rightarrow> string io" where
  "oktaGetSamlResponse lib net oktaUrl sessionToken oktaForwardUrl =
     (let samlUrl = oktaUrl
            @ ''/login/sessionCookieRedirect?checkAccountSetupComplete=true&token=''
      in io_bind (io_lift (str_add samlUrl sessionToken)) (\<lambda>withToken.
         io_bind (requests_get net (withToken @ ''&redirectUrl='' @ oktaForwardUrl)) (\<lambda>samlAuth.
         io_bind (io_lift (bytes_decode (content samlAuth))) (\<lambda>html.
         io_bind (io_lift (BeautifulSoup lib html)) (\<lambda>bs.
         io_bind (io_lift (tag_getitem
                    (soup_find ''input'' [(''name'', ''SAMLResponse'')] bs) ''value'')) (\<lambda>samlResp.
         io_return (unquote samlResp)))))))"

subsection \<open>\<^verbatim>\<open>awsAssumeRole\<close>\<close>

text \<open>
  \<^verbatim>\<open>
  def awsAssumeRole(samlb64enc):
      arnDict = xmltodict.parse(base64.b64decode(samlb64enc))
      arnStr = arnDict['saml2p:Response']['saml2:Assertion']['saml2:AttributeStatement']
                      ['saml2:Attribute'][0]['saml2:AttributeValue']['#text']
      roleArn = arnStr.split(",")[1]
      principalArn = arnStr.split(",")[0]
      awsReqUrl = "https://sts.amazonaws.com/?Version=2011-06-15&Action=AssumeRoleWithSAML&RoleArn="
                  + roleArn + "&PrincipalArn=" + principalArn
                  + "&SAMLAssertion=" + urllib.parse.quote_plus(samlb64enc)
      awsXml = requests.get(awsReqUrl)._content.decode()
      awsDict = xmltodict.parse(awsXml)
      return awsDict['AssumeRoleWithSAMLResponse']['AssumeRoleWithSAMLResult']['Credentials']
  \<close>
\<close>

definition arn_path :: "pykey list" where
  "arn_path = [KStr ''saml2p:Response'', KStr ''saml2:Assertion'',
               KStr ''saml2:AttributeStatement'', KStr ''saml2:Attribute'', KInt 0,
               KStr ''saml2:AttributeValue'', KStr ''#text'']"

definition credentials_path :: "pykey list" where
  "credentials_path = [KStr ''AssumeRoleWithSAMLResponse'',
                       KStr ''AssumeRoleWithSAMLResult'', KStr ''Credentials'']"

definition sts_url :: "string \<Rightarrow> string \<Rightarrow> string \<Rightarrow> string" where
  "sts_url roleArn principalArn samlb64enc =
     ''https://sts.amazonaws.com/?Version=2011-06-15&Action=AssumeRoleWithSAML&RoleArn=''
       @ roleArn @ ''&PrincipalArn='' @ principalArn
       @ ''&SAMLAssertion='' @ quote_plus samlb64enc"

definition awsAssumeRole :: "pylib \<Rightarrow> network \<Rightarrow> string \<Rightarrow> pyval io" where
  "awsAssumeRole lib net samlb64enc =
     io_bind (io_lift (b64decode lib samlb64enc)) (\<lambda>decoded.
     io_bind (io_lift (xmltodict_parse lib decoded)) (\<lambda>arnDict.
     io_bind (io_lift (py_getitems arnDict arn_path)) (\<lambda>arnStr.
     io_bind (io_lift (py_split arnStr (CHR '','')))  (\<lambda>segments1.
     io_bind (io_lift (list_getitem segments1 1)) (\<lambda>roleArn.
     io_bind (io_lift (py_split arnStr (CHR '','')))  (\<lambda>segments0.
     io_bind (io_lift (list_getitem segments0 0)) (\<lambda>principalArn.
     io_bind (requests_get net (sts_url roleArn principalArn samlb64enc)) (\<lambda>awsResp.
     io_bind (io_lift (bytes_decode (content awsResp))) (\<lambda>awsXml.
     io_bind (io_lift (xmltodict_parse lib awsXml)) (\<lambda>awsDict.
     io_lift (py_getitems awsDict credentials_path)))))))))))"

subsection \<open>\<^verbatim>\<open>assume\<close>\<close>

text \<open>
  \<^verbatim>\<open>
  def assume(username,password,oktaForwardUrl):
      oktaUrl = getOktaUrl(oktaForwardUrl)
      sessionToken = oktaAuth(username,password,oktaUrl)
      samlb64enc = oktaGetSamlResponse(oktaUrl,sessionToken,oktaForwardUrl)
      return awsAssumeRole(samlb64enc)
  \<close>
  The name \<^verbatim>\<open>assume\<close> is a keyword of Isabelle, so the function is \<open>assume'\<close> here.
\<close>

definition assume' :: "pylib \<Rightarrow> network \<Rightarrow> string \<Rightarrow> string \<Rightarrow> string \<Rightarrow> pyval io" where
  "assume' lib net username password oktaForwardUrl =
     io_bind (io_lift (getOktaUrl lib oktaForwardUrl)) (\<lambda>oktaUrl.
     io_bind (oktaAuth lib net username password oktaUrl) (\<lambda>sessionToken.
     io_bind (oktaGetSamlResponse lib net oktaUrl sessionToken oktaForwardUrl) (\<lambda>samlb64enc.
     awsAssumeRole lib net samlb64enc)))"

subsection \<open>What \<^verbatim>\<open>urlparse\<close> reads in a URL\<close>

text \<open>
  The URL as \<^verbatim>\<open>urlsplit\<close> reads it, after it has stripped the leading control
  characters and spaces and removed tabs and line breaks; the scheme and the netloc it
  finds there; and the checks a netloc has to pass.
\<close>

definition clean_url :: "string \<Rightarrow> string" where
  "clean_url url0 =
     fold remove_char unsafe_url_bytes_to_remove (dropWhile c0_control_or_space url0)"

definition url_scheme :: "string \<Rightarrow> string" where
  "url_scheme url0 = fst (split_scheme (clean_url url0))"

definition url_netloc :: "string \<Rightarrow> string" where
  "url_netloc url0 =
     (if take 2 (snd (split_scheme (clean_url url0))) = ''//''
      then fst (splitnetloc (snd (split_scheme (clean_url url0)))) else [])"

definition netloc_accepted :: "pylib \<Rightarrow> string \<Rightarrow> bool" where
  "netloc_accepted lib nl =
     ((contains (CHR ''['') nl = contains (CHR '']'') nl)
      \<and> (if contains (CHR ''['') nl
          then check_bracketed_host lib
                 (partition_before (CHR '']'') (partition_after (CHR ''['') nl)) = Inr ()
          else True)
      \<and> checknetloc lib nl = Inr ())"

text \<open>
  The parts of an absolute URL \<open>s @ ''://'' @ h @ r\<close>: a scheme \<open>s\<close> (a letter, then
  letters, digits, \<^verbatim>\<open>+\<close>, \<^verbatim>\<open>-\<close> and \<^verbatim>\<open>.\<close>), an authority \<open>h\<close> (no
  \<^verbatim>\<open>/\<close>, \<^verbatim>\<open>?\<close> or \<^verbatim>\<open>#\<close>, no tab or line break) and the rest \<open>r\<close>: nothing, or
  a path, query or fragment, which starts with \<^verbatim>\<open>/\<close>, \<^verbatim>\<open>?\<close> or \<^verbatim>\<open>#\<close>.
\<close>

definition is_scheme :: "string \<Rightarrow> bool" where
  "is_scheme s = (s \<noteq> [] \<and> ascii_alpha (hd s) \<and> list_all (\<lambda>c. contains c scheme_chars) s)"

definition is_authority :: "string \<Rightarrow> bool" where
  "is_authority h =
     list_all (\<lambda>c. \<not> netloc_delim c \<and> \<not> contains c unsafe_url_bytes_to_remove) h"

definition is_rest :: "string \<Rightarrow> bool" where
  "is_rest r = (case r of [] \<Rightarrow> True | c # cs \<Rightarrow> netloc_delim c)"

subsection \<open>The form field and the query parameter\<close>




subsection \<open>A mocked Okta server and a mocked STS server\<close>

text \<open>
  The scenario of the examples: libraries that know the documents of the scenario and
  nothing else, an Okta server that accepts one user and serves one page for each of
  three applications, and an STS server that answers one request.
\<close>

definition example_forward_url :: string where
  "example_forward_url = ''https://okta.example.com/home/amazon_aws/0oa123/272''"

definition second_forward_url :: string where
  "second_forward_url = ''https://okta.example.com/home/amazon_aws/0oa456/272''"

definition third_forward_url :: string where
  "third_forward_url = ''https://okta.example.com/home/amazon_aws/0oa789/272''"

definition example_token_body :: string where
  "example_token_body = ''{\"sessionToken\":\"abc123\"}''"

definition example_error_body :: string where
  "example_error_body = ''{\"errorCode\":\"E0000004\"}''"

definition example_page :: string where
  "example_page =
     ''<form><input name=\"RelayState\" value=\"x\">''
     @ ''<input name=\"SAMLResponse\" value=\"PHNhbWxwOlJlc3BvbnNlPg%3D%3D\"></form>''"

text \<open>A page whose \<^verbatim>\<open>SAMLResponse\<close> element has no value.\<close>

definition valueless_page :: string where
  "valueless_page = ''<form><input name=\"SAMLResponse\"></form>''"

definition example_saml_xml :: string where
  "example_saml_xml =
     ''<saml2p:Response><saml2:Assertion><saml2:AttributeStatement><saml2:Attribute Nam''
     @ ''e=\"Role\"><saml2:AttributeValue xsi:type=\"xs:string\">arn:aws:iam::111111111111:sa''
     @ ''ml-provider/Example,arn:aws:iam::111111111111:role/ExampleRole</saml2:AttributeV''
     @ ''alue></saml2:Attribute><saml2:Attribute Name=\"RoleSessionName\"><saml2:AttributeV''
     @ ''alue xsi:type=\"xs:string\">user</saml2:AttributeValue></saml2:Attribute></saml2:A''
     @ ''ttributeStatement></saml2:Assertion></saml2p:Response>''"

definition example_assertion :: string where
  "example_assertion =
     ''PHNhbWwycDpSZXNwb25zZT48c2FtbDI6QXNzZXJ0aW9uPjxzYW1sMjpBdHRyaWJ1dGVTdGF0ZW1lbnQ+''
     @ ''PHNhbWwyOkF0dHJpYnV0ZSBOYW1lPSJSb2xlIj48c2FtbDI6QXR0cmlidXRlVmFsdWUgeHNpOnR5cGU9''
     @ ''InhzOnN0cmluZyI+YXJuOmF3czppYW06OjExMTExMTExMTExMTpzYW1sLXByb3ZpZGVyL0V4YW1wbGUs''
     @ ''YXJuOmF3czppYW06OjExMTExMTExMTExMTpyb2xlL0V4YW1wbGVSb2xlPC9zYW1sMjpBdHRyaWJ1dGVW''
     @ ''YWx1ZT48L3NhbWwyOkF0dHJpYnV0ZT48c2FtbDI6QXR0cmlidXRlIE5hbWU9IlJvbGVTZXNzaW9uTmFt''
     @ ''ZSI+PHNhbWwyOkF0dHJpYnV0ZVZhbHVlIHhzaTp0eXBlPSJ4czpzdHJpbmciPnVzZXI8L3NhbWwyOkF0''
     @ ''dHJpYnV0ZVZhbHVlPjwvc2FtbDI6QXR0cmlidXRlPjwvc2FtbDI6QXR0cmlidXRlU3RhdGVtZW50Pjwv''
     @ ''c2FtbDI6QXNzZXJ0aW9uPjwvc2FtbDJwOlJlc3BvbnNlPg==''"

definition second_page :: string where
  "second_page =
     ''<form><input name=\"SAMLResponse\" value=\"'' @ example_assertion @ ''\"></form>''"

definition signin_page :: string where
  "signin_page = ''<html><body>Sign in</body></html>''"

definition example_arn_dict :: pyval where
  "example_arn_dict =
     PyDict [(''saml2p:Response'', PyDict [(''saml2:Assertion'', PyDict
       [(''saml2:AttributeStatement'', PyDict [(''saml2:Attribute'', PyList
          [PyDict [(''@Name'', PyStr ''Role''),
                   (''saml2:AttributeValue'', PyDict
                      [(''@xsi:type'', PyStr ''xs:string''),
                       (''#text'', PyStr (''arn:aws:iam::111111111111:saml-provider/Example''
                          @ '',arn:aws:iam::111111111111:role/ExampleRole''))])],
           PyDict [(''@Name'', PyStr ''RoleSessionName''),
                   (''saml2:AttributeValue'', PyDict
                      [(''@xsi:type'', PyStr ''xs:string''),
                       (''#text'', PyStr ''user'')])]])])])])]"

text \<open>The same assertion with its two attributes in the other order.\<close>

definition swapped_saml_xml :: string where
  "swapped_saml_xml =
     ''<saml2p:Response><saml2:Assertion><saml2:AttributeStatement><saml2:Attribute Nam''
     @ ''e=\"RoleSessionName\"><saml2:AttributeValue xsi:type=\"xs:string\">user</saml2:Attri''
     @ ''buteValue></saml2:Attribute><saml2:Attribute Name=\"Role\"><saml2:AttributeValue x''
     @ ''si:type=\"xs:string\">arn:aws:iam::111111111111:saml-provider/Example,arn:aws:iam:''
     @ '':111111111111:role/ExampleRole</saml2:AttributeValue></saml2:Attribute></saml2:A''
     @ ''ttributeStatement></saml2:Assertion></saml2p:Response>''"

definition swapped_assertion :: string where
  "swapped_assertion =
     ''PHNhbWwycDpSZXNwb25zZT48c2FtbDI6QXNzZXJ0aW9uPjxzYW1sMjpBdHRyaWJ1dGVTdGF0ZW1lbnQ+''
     @ ''PHNhbWwyOkF0dHJpYnV0ZSBOYW1lPSJSb2xlU2Vzc2lvbk5hbWUiPjxzYW1sMjpBdHRyaWJ1dGVWYWx1''
     @ ''ZSB4c2k6dHlwZT0ieHM6c3RyaW5nIj51c2VyPC9zYW1sMjpBdHRyaWJ1dGVWYWx1ZT48L3NhbWwyOkF0''
     @ ''dHJpYnV0ZT48c2FtbDI6QXR0cmlidXRlIE5hbWU9IlJvbGUiPjxzYW1sMjpBdHRyaWJ1dGVWYWx1ZSB4''
     @ ''c2k6dHlwZT0ieHM6c3RyaW5nIj5hcm46YXdzOmlhbTo6MTExMTExMTExMTExOnNhbWwtcHJvdmlkZXIv''
     @ ''RXhhbXBsZSxhcm46YXdzOmlhbTo6MTExMTExMTExMTExOnJvbGUvRXhhbXBsZVJvbGU8L3NhbWwyOkF0''
     @ ''dHJpYnV0ZVZhbHVlPjwvc2FtbDI6QXR0cmlidXRlPjwvc2FtbDI6QXR0cmlidXRlU3RhdGVtZW50Pjwv''
     @ ''c2FtbDI6QXNzZXJ0aW9uPjwvc2FtbDJwOlJlc3BvbnNlPg==''"

definition swapped_arn_dict :: pyval where
  "swapped_arn_dict =
     PyDict [(''saml2p:Response'', PyDict [(''saml2:Assertion'', PyDict
       [(''saml2:AttributeStatement'', PyDict [(''saml2:Attribute'', PyList
          [PyDict [(''@Name'', PyStr ''RoleSessionName''),
                   (''saml2:AttributeValue'', PyDict
                      [(''@xsi:type'', PyStr ''xs:string''),
                       (''#text'', PyStr ''user'')])],
           PyDict [(''@Name'', PyStr ''Role''),
                   (''saml2:AttributeValue'', PyDict
                      [(''@xsi:type'', PyStr ''xs:string''),
                       (''#text'', PyStr (''arn:aws:iam::111111111111:saml-provider/Example''
                          @ '',arn:aws:iam::111111111111:role/ExampleRole''))])]])])])])]"

text \<open>
  An assertion with one attribute only. For an element that occurs once among its
  siblings, \<^verbatim>\<open>xmltodict.parse\<close> gives the element itself, not a list of one.
\<close>

definition single_saml_xml :: string where
  "single_saml_xml =
     ''<saml2p:Response><saml2:Assertion><saml2:AttributeStatement><saml2:Attribute Nam''
     @ ''e=\"Role\"><saml2:AttributeValue xsi:type=\"xs:string\">arn:aws:iam::111111111111:sa''
     @ ''ml-provider/Example,arn:aws:iam::111111111111:role/ExampleRole</saml2:AttributeV''
     @ ''alue></saml2:Attribute></saml2:AttributeStatement></saml2:Assertion></saml2p:Res''
     @ ''ponse>''"

definition single_assertion :: string where
  "single_assertion =
     ''PHNhbWwycDpSZXNwb25zZT48c2FtbDI6QXNzZXJ0aW9uPjxzYW1sMjpBdHRyaWJ1dGVTdGF0ZW1lbnQ+''
     @ ''PHNhbWwyOkF0dHJpYnV0ZSBOYW1lPSJSb2xlIj48c2FtbDI6QXR0cmlidXRlVmFsdWUgeHNpOnR5cGU9''
     @ ''InhzOnN0cmluZyI+YXJuOmF3czppYW06OjExMTExMTExMTExMTpzYW1sLXByb3ZpZGVyL0V4YW1wbGUs''
     @ ''YXJuOmF3czppYW06OjExMTExMTExMTExMTpyb2xlL0V4YW1wbGVSb2xlPC9zYW1sMjpBdHRyaWJ1dGVW''
     @ ''YWx1ZT48L3NhbWwyOkF0dHJpYnV0ZT48L3NhbWwyOkF0dHJpYnV0ZVN0YXRlbWVudD48L3NhbWwyOkFz''
     @ ''c2VydGlvbj48L3NhbWwycDpSZXNwb25zZT4=''"

definition single_arn_dict :: pyval where
  "single_arn_dict =
     PyDict [(''saml2p:Response'', PyDict [(''saml2:Assertion'', PyDict
       [(''saml2:AttributeStatement'', PyDict [(''saml2:Attribute'',
          PyDict [(''@Name'', PyStr ''Role''),
                  (''saml2:AttributeValue'', PyDict
                     [(''@xsi:type'', PyStr ''xs:string''),
                      (''#text'', PyStr (''arn:aws:iam::111111111111:saml-provider/Example''
                         @ '',arn:aws:iam::111111111111:role/ExampleRole''))])])])])])]"

definition example_sts_xml :: string where
  "example_sts_xml =
     ''<AssumeRoleWithSAMLResponse><AssumeRoleWithSAMLResult><Credentials><AccessKeyId>''
     @ ''ASIAEXAMPLE</AccessKeyId><SecretAccessKey>secret</SecretAccessKey><SessionToken>''
     @ ''token</SessionToken><Expiration>2021-09-24T12:00:00Z</Expiration></Credentials><''
     @ ''/AssumeRoleWithSAMLResult></AssumeRoleWithSAMLResponse>''"

definition example_credentials :: pyval where
  "example_credentials =
     PyDict [(''AccessKeyId'', PyStr ''ASIAEXAMPLE''), (''SecretAccessKey'', PyStr ''secret''),
             (''SessionToken'', PyStr ''token''), (''Expiration'', PyStr ''2021-09-24T12:00:00Z'')]"

definition example_sts_dict :: pyval where
  "example_sts_dict =
     PyDict [(''AssumeRoleWithSAMLResponse'', PyDict
       [(''AssumeRoleWithSAMLResult'', PyDict [(''Credentials'', example_credentials)])])]"

definition mock_json_dumps :: "pyval \<Rightarrow> string" where
  "mock_json_dumps v =
     (case v of
        PyDict [(k1, PyStr v1), (k2, PyStr v2)] \<Rightarrow>
          ''{\"'' @ k1 @ ''\": \"'' @ v1 @ ''\", \"'' @ k2 @ ''\": \"'' @ v2 @ ''\"}''
      | _ \<Rightarrow> ''null'')"

definition mock_lib :: pylib where
  "mock_lib =
     \<lparr>nfkc_normalize = (\<lambda>s. s),
      ip_address = (\<lambda>s. if s = ''::1'' then Some IPv6Address else None),
      json_dumps = mock_json_dumps,
      response_json = (\<lambda>r.
        if content r = example_token_body then Inr (PyDict [(''sessionToken'', PyStr ''abc123'')])
        else if content r = example_error_body
        then Inr (PyDict [(''errorCode'', PyStr ''E0000004'')])
        else Inl JSONDecodeError),
      BeautifulSoup = (\<lambda>html.
        if html = example_page
        then Inr [Tag ''form'' []
                    [Tag ''input'' [(''name'', ''RelayState''), (''value'', ''x'')] [],
                     Tag ''input'' [(''name'', ''SAMLResponse''),
                                    (''value'', ''PHNhbWxwOlJlc3BvbnNlPg%3D%3D'')] []]]
        else if html = second_page
        then Inr [Tag ''form'' []
                    [Tag ''input'' [(''name'', ''SAMLResponse''),
                                    (''value'', example_assertion)] []]]
        else if html = signin_page
        then Inr [Tag ''html'' [] [Tag ''body'' [] [NavigableString ''Sign in'']]]
        else if html = valueless_page
        then Inr [Tag ''form'' [] [Tag ''input'' [(''name'', ''SAMLResponse'')] []]]
        else Inr [NavigableString html]),
      b64decode = (\<lambda>s.
        if s = ''PHNhbWxwOlJlc3BvbnNlPg=='' then Inr ''<samlp:Response>''
        else if s = example_assertion then Inr example_saml_xml
        else if s = swapped_assertion then Inr swapped_saml_xml
        else if s = single_assertion then Inr single_saml_xml
        else Inl BinasciiError),
      xmltodict_parse = (\<lambda>doc.
        if doc = example_saml_xml then Inr example_arn_dict
        else if doc = swapped_saml_xml then Inr swapped_arn_dict
        else if doc = example_sts_xml then Inr example_sts_dict
        else if doc = single_saml_xml then Inr single_arn_dict
        else Inl ExpatError)\<rparr>"

definition ok_response :: "string \<Rightarrow> response" where
  "ok_response body = \<lparr>status_code = 200, resp_headers = [], content = body\<rparr>"

definition saml_redirect_url :: "string \<Rightarrow> string" where
  "saml_redirect_url forward =
     ''https://okta.example.com/login/sessionCookieRedirect''
       @ ''?checkAccountSetupComplete=true&token=abc123&redirectUrl='' @ forward"

text \<open>
  The example assertion as \<^verbatim>\<open>urllib.parse.quote_plus\<close> of CPython writes it, and
  the request that the mocked STS server answers: the two ARNs of the example assertion
  and that parameter.
\<close>

definition example_parameter :: string where
  "example_parameter =
         ''PHNhbWwycDpSZXNwb25zZT48c2FtbDI6QXNzZXJ0aW9uPjxzYW1sMjpBdHRyaWJ1dGVTdGF0ZW1lbnQ%''
       @ ''2BPHNhbWwyOkF0dHJpYnV0ZSBOYW1lPSJSb2xlIj48c2FtbDI6QXR0cmlidXRlVmFsdWUgeHNpOnR5cG''
       @ ''U9InhzOnN0cmluZyI%2BYXJuOmF3czppYW06OjExMTExMTExMTExMTpzYW1sLXByb3ZpZGVyL0V4YW1w''
       @ ''bGUsYXJuOmF3czppYW06OjExMTExMTExMTExMTpyb2xlL0V4YW1wbGVSb2xlPC9zYW1sMjpBdHRyaWJ1''
       @ ''dGVWYWx1ZT48L3NhbWwyOkF0dHJpYnV0ZT48c2FtbDI6QXR0cmlidXRlIE5hbWU9IlJvbGVTZXNzaW9u''
       @ ''TmFtZSI%2BPHNhbWwyOkF0dHJpYnV0ZVZhbHVlIHhzaTp0eXBlPSJ4czpzdHJpbmciPnVzZXI8L3NhbW''
       @ ''wyOkF0dHJpYnV0ZVZhbHVlPjwvc2FtbDI6QXR0cmlidXRlPjwvc2FtbDI6QXR0cmlidXRlU3RhdGVtZW''
       @ ''50Pjwvc2FtbDI6QXNzZXJ0aW9uPjwvc2FtbDJwOlJlc3BvbnNlPg%3D%3D''"

definition example_sts_request :: string where
  "example_sts_request =
     ''https://sts.amazonaws.com/?Version=2011-06-15&Action=AssumeRoleWithSAML''
       @ ''&RoleArn=arn:aws:iam::111111111111:role/ExampleRole''
       @ ''&PrincipalArn=arn:aws:iam::111111111111:saml-provider/Example''
       @ ''&SAMLAssertion='' @ example_parameter"

definition mock_net :: network where
  "mock_net log req =
     (case req of
        POST url headers data \<Rightarrow>
          if url = ''https://okta.example.com/api/v1/authn''
               \<and> data = mock_json_dumps
                     (PyDict [(''username'', PyStr ''alice''), (''password'', PyStr ''s3cret'')])
          then Inr (ok_response example_token_body)
          else if url = ''https://okta.example.com/api/v1/authn''
          then Inr \<lparr>status_code = 401, resp_headers = [], content = example_error_body\<rparr>
          else Inl RequestException
      | GET url \<Rightarrow>
          if url = saml_redirect_url example_forward_url then Inr (ok_response example_page)
          else if url = saml_redirect_url second_forward_url then Inr (ok_response second_page)
          else if url = saml_redirect_url third_forward_url then Inr (ok_response signin_page)
          else if url = example_sts_request then Inr (ok_response example_sts_xml)
          else Inl RequestException)"


text \<open>An Okta server that answers every request with status 401 and a session token.\<close>

definition rejecting_net :: network where
  "rejecting_net log req =
     Inr \<lparr>status_code = 401, resp_headers = [], content = example_token_body\<rparr>"

section \<open>Properties\<close>


lemma netloc_accepted_Nil: "netloc_accepted lib []"
  by (simp add: netloc_accepted_def contains_def checknetloc_def)

lemma check_bracketed_host_err: "check_bracketed_host lib h = Inl e \<Longrightarrow> e = ValueError"
  by (auto simp: check_bracketed_host_def split: if_splits option.splits ip_version.splits)

lemma checknetloc_err: "checknetloc lib h = Inl e \<Longrightarrow> e = ValueError"
  by (auto simp: checknetloc_def Let_def split: if_splits)

lemma urlsplit_accepted:
  assumes "netloc_accepted lib (url_netloc url)"
  shows "\<exists>r. urlsplit lib url = Inr r \<and> sr_scheme r = url_scheme url \<and> sr_netloc r = url_netloc url"
proof -
  define u3 where "u3 = snd (split_scheme (clean_url url))"
  define sch where "sch = fst (split_scheme (clean_url url))"
  have ss: "split_scheme (fold remove_char unsafe_url_bytes_to_remove
              (dropWhile c0_control_or_space url)) = (sch, u3)"
    by (simp add: u3_def sch_def clean_url_def)
  show ?thesis
  proof (cases "take 2 u3 = ''//''")
    case True
    define nl where "nl = fst (splitnetloc u3)"
    define u4 where "u4 = snd (splitnetloc u3)"
    have sn: "splitnetloc u3 = (nl, u4)" by (simp add: nl_def u4_def)
    have acc: "netloc_accepted lib nl"
      using assms True by (simp add: url_netloc_def u3_def nl_def)
    have eq: "url_scheme url = sch" "url_netloc url = nl"
      using True by (simp_all add: url_scheme_def url_netloc_def u3_def nl_def sch_def)
    show ?thesis
      unfolding urlsplit_def Let_def ss eq using acc True
      by (simp add: sn netloc_accepted_def split: if_splits)
  next
    case False
    have eq: "url_scheme url = sch" "url_netloc url = []"
      using False by (simp_all add: url_scheme_def url_netloc_def u3_def sch_def)
    show ?thesis
      unfolding urlsplit_def Let_def ss eq using False
      by (simp add: checknetloc_def)
  qed
qed

lemma urlsplit_rejected:
  assumes "\<not> netloc_accepted lib (url_netloc url)"
  shows "urlsplit lib url = Inl ValueError"
proof -
  define u3 where "u3 = snd (split_scheme (clean_url url))"
  define sch where "sch = fst (split_scheme (clean_url url))"
  have ss: "split_scheme (fold remove_char unsafe_url_bytes_to_remove
              (dropWhile c0_control_or_space url)) = (sch, u3)"
    by (simp add: u3_def sch_def clean_url_def)
  show ?thesis
  proof (cases "take 2 u3 = ''//''")
    case True
    define nl where "nl = fst (splitnetloc u3)"
    define u4 where "u4 = snd (splitnetloc u3)"
    have sn: "splitnetloc u3 = (nl, u4)" by (simp add: nl_def u4_def)
    have acc: "\<not> netloc_accepted lib nl"
      using assms True by (simp add: url_netloc_def u3_def nl_def)
    show ?thesis
      unfolding urlsplit_def Let_def ss using acc True
      by (auto simp: sn netloc_accepted_def split: if_splits sum.splits
          dest: check_bracketed_host_err checknetloc_err)
  next
    case False
    then have "url_netloc url = []"
      by (simp add: url_netloc_def u3_def)
    with assms show ?thesis by (simp add: netloc_accepted_Nil)
  qed
qed

lemma getOktaUrl_char:
  "getOktaUrl lib url =
     (if netloc_accepted lib (url_netloc url)
      then Inr (url_scheme url @ ''://'' @ url_netloc url) else Inl ValueError)"
proof (cases "netloc_accepted lib (url_netloc url)")
  case True
  from urlsplit_accepted [OF True] obtain r where
    r: "urlsplit lib url = Inr r" "sr_scheme r = url_scheme url" "sr_netloc r = url_netloc url"
    by blast
  show ?thesis
    by (simp add: getOktaUrl_def urlparse_def r True Let_def case_prod_beta)
next
  case False
  then show ?thesis
    by (simp add: getOktaUrl_def urlparse_def urlsplit_rejected)
qed

lemma fold_remove_unsafe:
  "fold remove_char unsafe_url_bytes_to_remove s
     = filter (\<lambda>c. \<not> contains c unsafe_url_bytes_to_remove) s"
  by (induction s) (auto simp: unsafe_url_bytes_to_remove_def remove_char_def contains_def)

lemma scheme_char_safe:
  "contains c scheme_chars \<Longrightarrow>
     \<not> contains c unsafe_url_bytes_to_remove \<and> c \<noteq> CHR '':'' \<and> \<not> c0_control_or_space c"
  by (auto simp: contains_def scheme_chars_def unsafe_url_bytes_to_remove_def c0_control_or_space_def)

lemma delim_safe: "netloc_delim c \<Longrightarrow> \<not> contains c unsafe_url_bytes_to_remove"
  by (auto simp: contains_def netloc_delim_def unsafe_url_bytes_to_remove_def)

lemma clean_rest: "is_rest r \<Longrightarrow> is_rest (filter (\<lambda>c. \<not> contains c unsafe_url_bytes_to_remove) r)"
  by (cases r) (auto simp: is_rest_def delim_safe)

lemma clean_url_absolute:
  assumes "is_scheme s" "is_authority h"
  shows "clean_url (s @ CHR '':'' # CHR ''/'' # CHR ''/'' # h @ r)
           = s @ CHR '':'' # CHR ''/'' # CHR ''/'' # h
               @ filter (\<lambda>c. \<not> contains c unsafe_url_bytes_to_remove) r"
proof -
  from assms(1) obtain c cs where s: "s = c # cs" by (cases s) (auto simp: is_scheme_def)
  have all: "list_all (\<lambda>c. contains c scheme_chars) s" using assms(1) by (simp add: is_scheme_def)
  then have "\<not> c0_control_or_space c" using s scheme_char_safe by auto
  then have 1: "dropWhile c0_control_or_space (s @ CHR '':'' # CHR ''/'' # CHR ''/'' # h @ r)
                  = s @ CHR '':'' # CHR ''/'' # CHR ''/'' # h @ r"
    using s by simp
  have 2: "filter (\<lambda>c. \<not> contains c unsafe_url_bytes_to_remove) s = s"
    using all scheme_char_safe by (auto simp: list_all_iff intro!: filter_True)
  have 3: "filter (\<lambda>c. \<not> contains c unsafe_url_bytes_to_remove) h = h"
    using assms(2) by (auto simp: is_authority_def list_all_iff intro!: filter_True)
  have 4: "\<not> contains (CHR '':'') unsafe_url_bytes_to_remove"
    "\<not> contains (CHR ''/'') unsafe_url_bytes_to_remove"
    by (simp_all add: contains_def unsafe_url_bytes_to_remove_def)
  show ?thesis
    unfolding clean_url_def 1 fold_remove_unsafe
    by (simp add: 2 3 4)
qed

lemma split_scheme_absolute:
  assumes "is_scheme s"
  shows "split_scheme (s @ CHR '':'' # t) = (lower s, t)"
proof -
  have all: "list_all (\<lambda>c. contains c scheme_chars) s" using assms by (simp add: is_scheme_def)
  then have nc: "\<forall>c \<in> set s. c \<noteq> CHR '':''" using scheme_char_safe by (auto simp: list_all_iff)
  then have tw: "takeWhile (\<lambda>c. c \<noteq> CHR '':'') (s @ CHR '':'' # t) = s"
    by (simp add: takeWhile_append2)
  have hd: "hd (s @ CHR '':'' # t) = hd s" using assms by (simp add: is_scheme_def)
  show ?thesis
    unfolding split_scheme_def tw Let_def
    using assms all by (simp add: hd is_scheme_def contains_def)
qed

lemma splitnetloc_absolute:
  assumes "is_authority h" "is_rest r"
  shows "fst (splitnetloc (CHR ''/'' # CHR ''/'' # h @ r)) = h"
proof -
  have "\<forall>c \<in> set h. \<not> netloc_delim c" using assms(1) by (auto simp: is_authority_def list_all_iff)
  then have "takeWhile (\<lambda>c. \<not> netloc_delim c) (h @ r) = h"
    using assms(2) by (cases r) (auto simp: is_rest_def takeWhile_append2)
  then show ?thesis by (simp add: splitnetloc_def)
qed

lemma url_scheme_absolute:
  "is_scheme s \<Longrightarrow> is_authority h \<Longrightarrow>
     url_scheme (s @ CHR '':'' # CHR ''/'' # CHR ''/'' # h @ r) = lower s"
  by (simp add: url_scheme_def clean_url_absolute split_scheme_absolute)

lemma url_netloc_absolute:
  "is_scheme s \<Longrightarrow> is_authority h \<Longrightarrow> is_rest r \<Longrightarrow>
     url_netloc (s @ CHR '':'' # CHR ''/'' # CHR ''/'' # h @ r) = h"
  by (simp add: url_netloc_def clean_url_absolute split_scheme_absolute
      splitnetloc_absolute clean_rest)

lemma netloc_accepted_plain:
  "\<not> contains (CHR ''['') nl \<Longrightarrow> \<not> contains (CHR '']'') nl \<Longrightarrow> isascii nl
     \<Longrightarrow> netloc_accepted lib nl"
  by (simp add: netloc_accepted_def checknetloc_def)

lemma set_clean_url: "set (clean_url url) \<subseteq> set url"
  unfolding clean_url_def fold_remove_unsafe
  using set_dropWhileD by fastforce

lemma set_split_scheme: "set (snd (split_scheme u)) \<subseteq> set u"
  by (auto simp: split_scheme_def Let_def dest: in_set_dropD)

lemma set_splitnetloc: "set (fst (splitnetloc u)) \<subseteq> set u"
  by (auto simp: splitnetloc_def dest: set_takeWhileD in_set_dropD)

lemma set_url_netloc: "set (url_netloc url) \<subseteq> set url"
proof (cases "take 2 (snd (split_scheme (clean_url url))) = ''//''")
  case True
  then have "url_netloc url = fst (splitnetloc (snd (split_scheme (clean_url url))))"
    by (simp add: url_netloc_def)
  then show ?thesis
    using set_splitnetloc set_split_scheme set_clean_url by fastforce
next
  case False
  then show ?thesis by (simp add: url_netloc_def)
qed

subsection \<open>\<^verbatim>\<open>getOktaUrl\<close> on an absolute URL\<close>

text \<open>
  C2. For every absolute URL made of a scheme, \<^verbatim>\<open>://\<close>, an authority that
  \<^verbatim>\<open>urlparse\<close> accepts and a rest that is empty or starts a path, a query or a
  fragment, \<^verbatim>\<open>getOktaUrl\<close> returns the scheme (in lower case, as
  \<^verbatim>\<open>urlparse\<close> gives it), \<^verbatim>\<open>://\<close> and the authority, and nothing of the rest.
  Every authority of ASCII characters without square brackets is accepted
  (\<open>netloc_accepted_plain\<close>); one with brackets is accepted when they enclose an IPv6
  or IPvFuture address.
\<close>

theorem getOktaUrl_origin:
  assumes "is_scheme s" "is_authority h" "is_rest r" "netloc_accepted lib h"
  shows "getOktaUrl lib (s @ ''://'' @ h @ r) = Inr (lower s @ ''://'' @ h)"
  using assms by (simp add: getOktaUrl_char url_scheme_absolute url_netloc_absolute)

text \<open>The example of the specification: the application URL of an Okta account.\<close>

theorem getOktaUrl_origin_example:
  "getOktaUrl mock_lib ''https://okta.example.com/home/amazon_aws/0oa123/272''
     = Inr ''https://okta.example.com''"
proof -
  have s: "is_scheme ''https''"
    by (simp add: is_scheme_def ascii_alpha_def ascii_upper_def ascii_lower_def
        contains_def scheme_chars_def)
  have h: "is_authority ''okta.example.com''"
    by (simp add: is_authority_def netloc_delim_def contains_def unsafe_url_bytes_to_remove_def)
  have r: "is_rest ''/home/amazon_aws/0oa123/272''"
    by (simp add: is_rest_def netloc_delim_def contains_def)
  have a: "netloc_accepted mock_lib ''okta.example.com''"
    by (rule netloc_accepted_plain) (simp_all add: contains_def isascii_def is_ascii_def)
  have l: "lower ''https'' = ''https''"
    by (simp add: lower_def lower_char_def ascii_upper_def)
  show ?thesis
    using getOktaUrl_origin [OF s h r a] by (simp add: l)
qed

subsection \<open>\<^verbatim>\<open>getOktaUrl\<close> on a URL without a scheme or without a host\<close>

text \<open>
  C3, as the code has it. \<^verbatim>\<open>getOktaUrl\<close> checks nothing itself: where
  \<^verbatim>\<open>urlparse\<close> finds no netloc it returns the scheme and \<^verbatim>\<open>://\<close>, and where
  \<^verbatim>\<open>urlparse\<close> finds no scheme but a netloc that it accepts, it returns
  \<^verbatim>\<open>://\<close> and the netloc. Neither case is an error.
\<close>

theorem getOktaUrl_missing_component:
  "(url_netloc url = [] \<longrightarrow> getOktaUrl lib url = Inr (url_scheme url @ ''://''))
   \<and> (url_scheme url = [] \<and> netloc_accepted lib (url_netloc url)
        \<longrightarrow> getOktaUrl lib url = Inr (''://'' @ url_netloc url))"
  by (simp add: getOktaUrl_char netloc_accepted_Nil)

theorem getOktaUrl_missing_component_example:
  "getOktaUrl mock_lib ''https:/home'' = Inr ''https://''
   \<and> getOktaUrl mock_lib ''//okta.example.com/home'' = Inr ''://okta.example.com''"
proof -
  have 1: "url_netloc ''https:/home'' = []" "url_scheme ''https:/home'' = ''https''"
    by code_simp+
  have 2: "url_scheme ''//okta.example.com/home'' = []"
    "url_netloc ''//okta.example.com/home'' = ''okta.example.com''"
    by code_simp+
  have 3: "netloc_accepted mock_lib ''okta.example.com''"
    by (rule netloc_accepted_plain) (simp_all add: contains_def isascii_def is_ascii_def)
  show ?thesis
    using getOktaUrl_missing_component [of "''https:/home''" mock_lib]
      getOktaUrl_missing_component [of "''//okta.example.com/home''" mock_lib]
    by (simp add: 1 2 3)
qed

text \<open>
  A string with neither scheme nor host, for which the claim of the specification
  asks for the error \<^verbatim>\<open>InvalidUrl\<close>: the code returns a string.
\<close>

theorem getOktaUrl_no_InvalidUrl:
  "url_scheme ''okta.example.com/home'' = [] \<and> url_netloc ''okta.example.com/home'' = []
   \<and> getOktaUrl mock_lib ''okta.example.com/home'' = Inr ''://''"
  by code_simp

subsection \<open>Where \<^verbatim>\<open>getOktaUrl\<close> returns and where it raises\<close>

text \<open>
  C10, as the code has it. \<^verbatim>\<open>getOktaUrl\<close> returns a string exactly when
  \<^verbatim>\<open>urlparse\<close> accepts the netloc it finds, which it does for every input of ASCII
  characters without square brackets; for any other input the \<^verbatim>\<open>ValueError\<close> of
  \<^verbatim>\<open>urlparse\<close> leaves \<^verbatim>\<open>getOktaUrl\<close>. An input with neither scheme nor netloc
  gives \<^verbatim>\<open>://\<close> and nothing more.
\<close>

theorem getOktaUrl_total:
  "(netloc_accepted lib (url_netloc url)
      \<longrightarrow> getOktaUrl lib url = Inr (url_scheme url @ ''://'' @ url_netloc url))
   \<and> (\<not> netloc_accepted lib (url_netloc url) \<longrightarrow> getOktaUrl lib url = Inl ValueError)
   \<and> (isascii url \<and> \<not> contains (CHR ''['') url \<and> \<not> contains (CHR '']'') url
        \<longrightarrow> (\<exists>origin. getOktaUrl lib url = Inr origin))
   \<and> (url_scheme url = [] \<and> url_netloc url = [] \<longrightarrow> getOktaUrl lib url = Inr ''://'')"
proof -
  have "netloc_accepted lib (url_netloc url)"
    if "isascii url" "\<not> contains (CHR ''['') url" "\<not> contains (CHR '']'') url"
  proof (rule netloc_accepted_plain)
    show "\<not> contains (CHR ''['') (url_netloc url)" "\<not> contains (CHR '']'') (url_netloc url)"
      using that set_url_netloc [of url] by (auto simp: contains_def)
    show "isascii (url_netloc url)"
      using that set_url_netloc [of url] by (auto simp: isascii_def list_all_iff)
  qed
  then show ?thesis
    by (simp add: getOktaUrl_char netloc_accepted_Nil)
qed

theorem getOktaUrl_total_example:
  "getOktaUrl mock_lib ''/home/amazon_aws'' = Inr ''://''
   \<and> getOktaUrl mock_lib ''http://[::1]:8080/x'' = Inr ''http://[::1]:8080''
   \<and> getOktaUrl mock_lib ''http://[bad]/x'' = Inl ValueError"
proof -
  have 1: "url_scheme ''/home/amazon_aws'' = []" "url_netloc ''/home/amazon_aws'' = []"
    by code_simp+
  have 2: "url_scheme ''http://[::1]:8080/x'' = ''http''"
    "url_netloc ''http://[::1]:8080/x'' = ''[::1]:8080''"
    "netloc_accepted mock_lib ''[::1]:8080''"
    by code_simp+
  have 3: "url_netloc ''http://[bad]/x'' = ''[bad]''" "\<not> netloc_accepted mock_lib ''[bad]''"
    by code_simp+
  show ?thesis
    using getOktaUrl_total [of mock_lib "''/home/amazon_aws''"]
      getOktaUrl_total [of mock_lib "''http://[::1]:8080/x''"]
      getOktaUrl_total [of mock_lib "''http://[bad]/x''"]
    by (simp add: 1 2 3)
qed

text \<open>An input on which \<^verbatim>\<open>getOktaUrl\<close> raises: a netloc with an open bracket.\<close>

theorem getOktaUrl_raises:
  "getOktaUrl mock_lib ''http://[::1'' = Inl ValueError"
  by code_simp

subsection \<open>Running the programs\<close>

text \<open>
  Unfolding the sequencing of a program, and the codecs on ASCII text.
\<close>

lemmas io_simps = io_bind_def io_lift_def io_return_def requests_get_def requests_post_def

lemma utf8_chunks_ascii: "isascii s \<Longrightarrow> utf8_chunks s = map (\<lambda>c. ([c], True)) s"
  by (induction s) (auto simp: isascii_def is_ascii_def Let_def)

lemma bytes_decode_ascii: "isascii s \<Longrightarrow> bytes_decode s = Inr s"
  by (simp add: bytes_decode_def utf8_chunks_ascii list_all_iff)

lemma unquote_plain: "\<not> contains (CHR ''%'') s \<Longrightarrow> unquote s = s"
  by (simp add: unquote_def)

lemma split_sep_absent: "\<not> contains c s \<Longrightarrow> split_sep c s = [s]"
  by (induction s) (auto simp: contains_def)

lemma split_sep_first:
  "\<not> contains c p \<Longrightarrow> split_sep c (p @ c # t) = p # split_sep c t"
  by (induction p) (auto simp: contains_def)

lemma split_sep_two:
  assumes "\<not> contains c p" "\<not> contains c r" "others = [] \<or> hd others = c"
  shows "\<exists>segments. split_sep c (p @ c # r @ others) = p # r # segments"
proof (cases others)
  case Nil
  then show ?thesis using assms by (simp add: split_sep_first split_sep_absent)
next
  case (Cons x xs)
  then have "others = c # xs" using assms(3) by simp
  then show ?thesis using assms(1,2) by (simp add: split_sep_first)
qed

lemma oktaGetSamlResponse_unfold:
  "oktaGetSamlResponse lib net oktaUrl (PyStr token) oktaForwardUrl log =
     (case net log (GET (oktaUrl
             @ ''/login/sessionCookieRedirect?checkAccountSetupComplete=true&token=''
             @ token @ ''&redirectUrl='' @ oktaForwardUrl)) of
        Inl e \<Rightarrow> (Inl e, log @ [GET (oktaUrl
             @ ''/login/sessionCookieRedirect?checkAccountSetupComplete=true&token=''
             @ token @ ''&redirectUrl='' @ oktaForwardUrl)])
      | Inr samlAuth \<Rightarrow>
          (case bytes_decode (content samlAuth) of
             Inl e \<Rightarrow> (Inl e, log @ [GET (oktaUrl
               @ ''/login/sessionCookieRedirect?checkAccountSetupComplete=true&token=''
               @ token @ ''&redirectUrl='' @ oktaForwardUrl)])
           | Inr html \<Rightarrow>
               (case BeautifulSoup lib html of
                  Inl e \<Rightarrow> (Inl e, log @ [GET (oktaUrl
                    @ ''/login/sessionCookieRedirect?checkAccountSetupComplete=true&token=''
                    @ token @ ''&redirectUrl='' @ oktaForwardUrl)])
                | Inr bs \<Rightarrow>
                    (map_sum id unquote
                       (tag_getitem (soup_find ''input'' [(''name'', ''SAMLResponse'')] bs) ''value''),
                     log @ [GET (oktaUrl
                       @ ''/login/sessionCookieRedirect?checkAccountSetupComplete=true&token=''
                       @ token @ ''&redirectUrl='' @ oktaForwardUrl)]))))"
  by (simp add: oktaGetSamlResponse_def Let_def io_simps str_add_def split: sum.splits)

lemma awsAssumeRole_split:
  assumes "b64decode lib samlb64enc = Inr decoded"
    and "xmltodict_parse lib decoded = Inr arnDict"
    and "py_getitems arnDict arn_path = Inr (PyStr arnStr)"
    and "split_sep (CHR '','') arnStr = principalArn # roleArn # segments"
  shows "awsAssumeRole lib net samlb64enc log =
           (case net log (GET (sts_url roleArn principalArn samlb64enc)) of
              Inl e \<Rightarrow> (Inl e, log @ [GET (sts_url roleArn principalArn samlb64enc)])
            | Inr awsResp \<Rightarrow>
                (case bytes_decode (content awsResp) of
                   Inl e \<Rightarrow> (Inl e, log @ [GET (sts_url roleArn principalArn samlb64enc)])
                 | Inr awsXml \<Rightarrow>
                     (case xmltodict_parse lib awsXml of
                        Inl e \<Rightarrow> (Inl e, log @ [GET (sts_url roleArn principalArn samlb64enc)])
                      | Inr awsDict \<Rightarrow>
                          (py_getitems awsDict credentials_path,
                           log @ [GET (sts_url roleArn principalArn samlb64enc)]))))"
  using assms
  by (simp add: awsAssumeRole_def io_simps py_split_def list_getitem_def split: sum.splits)


















subsection \<open>The mocked servers at work\<close>

lemma mock_post_alice:
  "mock_net log (POST ''https://okta.example.com/api/v1/authn''
      [(''Content-Type'', ''application/json; charset=utf-8'')]
      (json_dumps mock_lib (PyDict [(''username'', PyStr ''alice''), (''password'', PyStr ''s3cret'')])))
     = Inr (ok_response example_token_body)"
  by (simp add: mock_net_def mock_lib_def)

lemma mock_json_token:
  "response_json mock_lib (ok_response example_token_body)
     = Inr (PyDict [(''sessionToken'', PyStr ''abc123'')])"
  by (simp add: mock_lib_def ok_response_def)

lemma mock_dumps_alice:
  "json_dumps mock_lib (PyDict [(''username'', PyStr ''alice''), (''password'', PyStr ''s3cret'')])
     = ''{\"username\": \"alice\", \"password\": \"s3cret\"}''"
  by (simp add: mock_lib_def mock_json_dumps_def)

lemma redirect_url:
  "''https://okta.example.com''
     @ ''/login/sessionCookieRedirect?checkAccountSetupComplete=true&token=''
     @ ''abc123'' @ ''&redirectUrl='' @ forward = saml_redirect_url forward"
  by (simp add: saml_redirect_url_def)

lemma forward_urls_distinct:
  "second_forward_url \<noteq> example_forward_url" "third_forward_url \<noteq> example_forward_url"
  "third_forward_url \<noteq> second_forward_url"
  by (simp_all add: example_forward_url_def second_forward_url_def third_forward_url_def)

lemma saml_redirect_url_inj: "saml_redirect_url a = saml_redirect_url b \<longleftrightarrow> a = b"
  by (simp add: saml_redirect_url_def)

lemma mock_get_pages:
  "mock_net log (GET (saml_redirect_url example_forward_url)) = Inr (ok_response example_page)"
  "mock_net log (GET (saml_redirect_url second_forward_url)) = Inr (ok_response second_page)"
  "mock_net log (GET (saml_redirect_url third_forward_url)) = Inr (ok_response signin_page)"
  by (simp_all add: mock_net_def saml_redirect_url_inj forward_urls_distinct)

lemma ascii_docs:
  "isascii example_page" "isascii signin_page" "isascii example_sts_xml"
  by (simp_all add: isascii_def is_ascii_def example_page_def signin_page_def example_sts_xml_def)

lemma ascii_assertion: "isascii example_assertion"
  by (simp add: isascii_def is_ascii_def example_assertion_def)

lemma ascii_second_page: "isascii second_page"
  using ascii_assertion by (simp add: isascii_def is_ascii_def second_page_def)

lemma pages_distinct:
  "second_page \<noteq> example_page" "signin_page \<noteq> example_page" "signin_page \<noteq> second_page"
  by (simp_all add: example_page_def signin_page_def second_page_def)

lemma mock_soup:
  "BeautifulSoup mock_lib example_page
     = Inr [Tag ''form'' []
              [Tag ''input'' [(''name'', ''RelayState''), (''value'', ''x'')] [],
               Tag ''input'' [(''name'', ''SAMLResponse''),
                              (''value'', ''PHNhbWxwOlJlc3BvbnNlPg%3D%3D'')] []]]"
  "BeautifulSoup mock_lib second_page
     = Inr [Tag ''form'' []
              [Tag ''input'' [(''name'', ''SAMLResponse''), (''value'', example_assertion)] []]]"
  "BeautifulSoup mock_lib signin_page
     = Inr [Tag ''html'' [] [Tag ''body'' [] [NavigableString ''Sign in'']]]"
  by (simp_all add: mock_lib_def pages_distinct)

lemma unquote_example: "unquote ''PHNhbWxwOlJlc3BvbnNlPg%3D%3D'' = ''PHNhbWxwOlJlc3BvbnNlPg==''"
  by code_simp

lemma no_percent: "\<not> contains (CHR ''%'') example_assertion"
  by (simp add: contains_def example_assertion_def)

lemma assertions_distinct:
  "example_assertion \<noteq> ''PHNhbWxwOlJlc3BvbnNlPg==''"
  "swapped_assertion \<noteq> ''PHNhbWxwOlJlc3BvbnNlPg==''"
  "swapped_assertion \<noteq> example_assertion"
  by (simp_all add: example_assertion_def swapped_assertion_def)

lemma xml_distinct:
  "swapped_saml_xml \<noteq> example_saml_xml"
  "example_sts_xml \<noteq> example_saml_xml"
  "example_sts_xml \<noteq> swapped_saml_xml"
  by (simp_all add: example_saml_xml_def swapped_saml_xml_def example_sts_xml_def)

lemma mock_b64decode:
  "b64decode mock_lib example_assertion = Inr example_saml_xml"
  "b64decode mock_lib swapped_assertion = Inr swapped_saml_xml"
  "b64decode mock_lib ''PHNhbWxwOlJlc3BvbnNlPg=='' = Inr ''<samlp:Response>''"
  by (simp_all add: mock_lib_def assertions_distinct)

lemma mock_xmltodict:
  "xmltodict_parse mock_lib example_saml_xml = Inr example_arn_dict"
  "xmltodict_parse mock_lib swapped_saml_xml = Inr swapped_arn_dict"
  "xmltodict_parse mock_lib example_sts_xml = Inr example_sts_dict"
  by (simp_all add: mock_lib_def xml_distinct)

lemma example_arn_text:
  "py_getitems example_arn_dict arn_path
     = Inr (PyStr (''arn:aws:iam::111111111111:saml-provider/Example'' @ '',''
                   @ ''arn:aws:iam::111111111111:role/ExampleRole'' @ []))"
  by (simp add: example_arn_dict_def arn_path_def list_getitem_def)

lemma swapped_arn_text: "py_getitems swapped_arn_dict arn_path = Inr (PyStr ''user'')"
  by (simp add: swapped_arn_dict_def arn_path_def list_getitem_def)

lemma example_split:
  "split_sep (CHR '','') (''arn:aws:iam::111111111111:saml-provider/Example'' @ '',''
                   @ ''arn:aws:iam::111111111111:role/ExampleRole'' @ [])
     = ''arn:aws:iam::111111111111:saml-provider/Example''
       # ''arn:aws:iam::111111111111:role/ExampleRole'' # []"
  by code_simp

lemma example_assertion_quoted: "quote_plus example_assertion = example_parameter"
  by code_simp

lemma sts_not_redirect:
  "''https://sts.amazonaws.com/?Version=2011-06-15&Action=AssumeRoleWithSAML'' @ t
     \<noteq> saml_redirect_url forward"
  by (simp add: saml_redirect_url_def)

lemma mock_get_sts:
  "mock_net log (GET (''https://sts.amazonaws.com/?Version=2011-06-15&Action=AssumeRoleWithSAML''
           @ ''&RoleArn='' @ ''arn:aws:iam::111111111111:role/ExampleRole''
           @ ''&PrincipalArn='' @ ''arn:aws:iam::111111111111:saml-provider/Example''
           @ ''&SAMLAssertion='' @ quote_plus example_assertion))
     = Inr (ok_response example_sts_xml)"
  unfolding example_assertion_quoted mock_net_def request.case example_sts_request_def
  by (simp only: sts_not_redirect if_False) simp

lemma example_credentials_found:
  "py_getitems example_sts_dict credentials_path = Inr example_credentials"
  by (simp add: example_sts_dict_def credentials_path_def)

lemma mock_origin:
  "getOktaUrl mock_lib example_forward_url = Inr ''https://okta.example.com''"
  "getOktaUrl mock_lib second_forward_url = Inr ''https://okta.example.com''"
  "getOktaUrl mock_lib third_forward_url = Inr ''https://okta.example.com''"
  "getOktaUrl mock_lib ''http://[::1'' = Inl ValueError"
  by code_simp+

lemma mock_oktaAuth:
  "oktaAuth mock_lib mock_net ''alice'' ''s3cret'' ''https://okta.example.com'' log =
     (Inr (PyStr ''abc123''),
      log @ [POST ''https://okta.example.com/api/v1/authn''
               [(''Content-Type'', ''application/json; charset=utf-8'')]
               ''{\"username\": \"alice\", \"password\": \"s3cret\"}''])"
  using mock_post_alice [of log] mock_json_token
  by (simp add: oktaAuth_def Let_def io_simps mock_dumps_alice)

lemma mock_oktaAuth_wrong:
  "oktaAuth mock_lib mock_net ''alice'' ''wrong'' ''https://okta.example.com'' log =
     (Inl KeyError,
      log @ [POST ''https://okta.example.com/api/v1/authn''
               [(''Content-Type'', ''application/json; charset=utf-8'')]
               ''{\"username\": \"alice\", \"password\": \"wrong\"}''])"
  by (simp add: oktaAuth_def Let_def io_simps mock_net_def mock_lib_def mock_json_dumps_def
      example_error_body_def example_token_body_def)

lemma mock_saml_example:
  "oktaGetSamlResponse mock_lib mock_net ''https://okta.example.com'' (PyStr ''abc123'')
     example_forward_url log =
     (Inr ''PHNhbWxwOlJlc3BvbnNlPg=='', log @ [GET (saml_redirect_url example_forward_url)])"
  unfolding oktaGetSamlResponse_unfold redirect_url
  by (simp add: mock_get_pages ok_response_def bytes_decode_ascii ascii_docs
      mock_soup soup_find_def soup_descendants_def tag_matches_def tag_getitem_def
      unquote_example)

lemma mock_saml_second:
  "oktaGetSamlResponse mock_lib mock_net ''https://okta.example.com'' (PyStr ''abc123'')
     second_forward_url log =
     (Inr example_assertion, log @ [GET (saml_redirect_url second_forward_url)])"
  unfolding oktaGetSamlResponse_unfold redirect_url
  by (simp add: mock_get_pages ok_response_def bytes_decode_ascii ascii_second_page
      mock_soup soup_find_def soup_descendants_def tag_matches_def tag_getitem_def
      unquote_plain no_percent)

lemma mock_saml_third:
  "oktaGetSamlResponse mock_lib mock_net ''https://okta.example.com'' (PyStr ''abc123'')
     third_forward_url log =
     (Inl TypeError, log @ [GET (saml_redirect_url third_forward_url)])"
  unfolding oktaGetSamlResponse_unfold redirect_url
  by (simp add: mock_get_pages ok_response_def bytes_decode_ascii ascii_docs
      mock_soup soup_find_def soup_descendants_def tag_matches_def tag_getitem_def)

lemma mock_aws:
  "awsAssumeRole mock_lib mock_net example_assertion log =
     (Inr example_credentials,
      log @ [GET (''https://sts.amazonaws.com/?Version=2011-06-15&Action=AssumeRoleWithSAML''
           @ ''&RoleArn=arn:aws:iam::111111111111:role/ExampleRole''
           @ ''&PrincipalArn=arn:aws:iam::111111111111:saml-provider/Example''
           @ ''&SAMLAssertion='' @ quote_plus example_assertion)])"
  using awsAssumeRole_split [where lib = mock_lib and net = mock_net and log = log,
        OF mock_b64decode(1) mock_xmltodict(1) example_arn_text example_split]
    mock_get_sts [of log]
  by (simp add: sts_url_def ok_response_def bytes_decode_ascii ascii_docs mock_xmltodict
      example_credentials_found)

lemma mock_aws_not_xml:
  "awsAssumeRole mock_lib mock_net ''PHNhbWxwOlJlc3BvbnNlPg=='' log = (Inl ExpatError, log)"
  by (simp add: awsAssumeRole_def io_simps mock_b64decode)
     (simp add: mock_lib_def example_saml_xml_def swapped_saml_xml_def example_sts_xml_def
        single_saml_xml_def)



subsection \<open>\<^verbatim>\<open>oktaAuth\<close>: the session token\<close>

text \<open>
  C8, as the code has it. \<^verbatim>\<open>oktaAuth\<close> posts the credentials once and never
  looks at the status of the response: whenever the body of the response is a JSON
  object, it returns the value of its \<^verbatim>\<open>sessionToken\<close> field if there is one,
  whatever the status, and raises \<^verbatim>\<open>KeyError\<close> if there is none. The program has
  no error of its own for a rejected login.
\<close>

theorem oktaAuth_session_token:
  assumes "net log (POST (oktaUrl @ ''/api/v1/authn'')
                      [(''Content-Type'', ''application/json; charset=utf-8'')]
                      (json_dumps lib (PyDict [(''username'', PyStr username),
                                               (''password'', PyStr password)]))) = Inr response"
    and "response_json lib response = Inr (PyDict body)"
  shows "oktaAuth lib net username password oktaUrl log =
           ((case map_of body ''sessionToken'' of
               Some token \<Rightarrow> Inr token
             | None \<Rightarrow> Inl KeyError),
            log @ [POST (oktaUrl @ ''/api/v1/authn'')
                     [(''Content-Type'', ''application/json; charset=utf-8'')]
                     (json_dumps lib (PyDict [(''username'', PyStr username),
                                              (''password'', PyStr password)]))])"
  using assms
  by (simp add: oktaAuth_def Let_def io_simps split: option.splits)

text \<open>
  The example of the specification: the body \<^verbatim>\<open>{"sessionToken":"abc123"}\<close> with
  status 200 gives \<^verbatim>\<open>abc123\<close>.
\<close>

theorem oktaAuth_session_token_example:
  "oktaAuth mock_lib mock_net ''alice'' ''s3cret'' ''https://okta.example.com'' [] =
     (Inr (PyStr ''abc123''),
      [POST ''https://okta.example.com/api/v1/authn''
         [(''Content-Type'', ''application/json; charset=utf-8'')]
         ''{\"username\": \"alice\", \"password\": \"s3cret\"}''])"
  using oktaAuth_session_token [of mock_net "[]" "''https://okta.example.com''" mock_lib
      "''alice''" "''s3cret''" "ok_response example_token_body" "[(''sessionToken'', PyStr ''abc123'')]"]
    mock_post_alice [of "[]"] mock_json_token
  by (simp add: mock_dumps_alice)

text \<open>
  A response with status 401 that holds a session token: the token is returned. And a
  response with status 401 and Okta's error document: the exception is \<^verbatim>\<open>KeyError\<close>.
\<close>

theorem oktaAuth_ignores_status:
  "fst (oktaAuth mock_lib rejecting_net ''alice'' ''wrong'' ''https://okta.example.com'' [])
     = Inr (PyStr ''abc123'')
   \<and> fst (oktaAuth mock_lib mock_net ''alice'' ''wrong'' ''https://okta.example.com'' [])
     = Inl KeyError"
  by code_simp

subsection \<open>\<^verbatim>\<open>oktaGetSamlResponse\<close>: the SAML response\<close>




text \<open>
  C7, as the code has it. When the page holds no \<^verbatim>\<open>input\<close> element with
  \<^verbatim>\<open>name="SAMLResponse"\<close>, \<^verbatim>\<open>find\<close> returns \<^verbatim>\<open>None\<close> and the
  subscript \<^verbatim>\<open>['value']\<close> raises \<^verbatim>\<open>TypeError\<close>, once the GET request has been
  made. The program has no error of its own for a missing element.
\<close>

theorem oktaGetSamlResponse_no_element:
  assumes "net log (GET (oktaUrl
             @ ''/login/sessionCookieRedirect?checkAccountSetupComplete=true&token=''
             @ token @ ''&redirectUrl='' @ oktaForwardUrl)) = Inr samlAuth"
    and "bytes_decode (content samlAuth) = Inr html"
    and "BeautifulSoup lib html = Inr bs"
    and "\<not> list_ex (tag_matches ''input'' [(''name'', ''SAMLResponse'')]) (soup_descendants bs)"
  shows "oktaGetSamlResponse lib net oktaUrl (PyStr token) oktaForwardUrl log =
           (Inl TypeError,
            log @ [GET (oktaUrl
              @ ''/login/sessionCookieRedirect?checkAccountSetupComplete=true&token=''
              @ token @ ''&redirectUrl='' @ oktaForwardUrl)])"
proof -
  have "soup_find ''input'' [(''name'', ''SAMLResponse'')] bs = None"
    using assms(4) by (simp add: soup_find_def find_None_iff list_ex_iff)
  with assms(1-3) show ?thesis
    by (simp add: oktaGetSamlResponse_def Let_def io_simps str_add_def tag_getitem_def)
qed

text \<open>The sign-in page that Okta serves instead of the form.\<close>

theorem oktaGetSamlResponse_no_element_example:
  "oktaGetSamlResponse mock_lib mock_net ''https://okta.example.com'' (PyStr ''abc123'')
     third_forward_url [] =
     (Inl TypeError, [GET (saml_redirect_url third_forward_url)])"
proof -
  have 1: "mock_net [] (GET (''https://okta.example.com''
     @ ''/login/sessionCookieRedirect?checkAccountSetupComplete=true&token=''
     @ ''abc123'' @ ''&redirectUrl='' @ third_forward_url)) = Inr (ok_response signin_page)"
    unfolding redirect_url by (rule mock_get_pages)
  have 2: "bytes_decode (content (ok_response signin_page)) = Inr signin_page"
    by (simp add: ok_response_def bytes_decode_ascii ascii_docs)
  have 4: "\<not> list_ex (tag_matches ''input'' [(''name'', ''SAMLResponse'')])
             (soup_descendants [Tag ''html'' [] [Tag ''body'' [] [NavigableString ''Sign in'']]])"
    by (simp add: soup_descendants_def tag_matches_def)
  show ?thesis
    using oktaGetSamlResponse_no_element [where net = mock_net and log = "[]"
        and oktaUrl = "''https://okta.example.com''" and token = "''abc123''"
        and oktaForwardUrl = third_forward_url and lib = mock_lib, OF 1 2 mock_soup(3) 4]
    unfolding redirect_url append_Nil .
qed

text \<open>
  The same page, for which the claim of the specification excludes a generic
  exception: the result is \<^verbatim>\<open>TypeError\<close>.
\<close>

theorem oktaGetSamlResponse_generic_exception:
  "fst (oktaGetSamlResponse mock_lib mock_net ''https://okta.example.com'' (PyStr ''abc123'')
          ''https://okta.example.com/home/amazon_aws/0oa789/272'' []) = Inl TypeError"
  by code_simp

subsection \<open>\<^verbatim>\<open>awsAssumeRole\<close>: the ARNs and the credentials\<close>

text \<open>
  C4. When the attribute value of the assertion is a principal ARN, a comma, a role ARN
  and then nothing or a comma and more text, the request to STS carries the second
  segment as \<^verbatim>\<open>RoleArn\<close> and the first as \<^verbatim>\<open>PrincipalArn\<close>.
\<close>

theorem awsAssumeRole_arns:
  assumes "b64decode lib samlb64enc = Inr decoded"
    and "xmltodict_parse lib decoded = Inr arnDict"
    and "py_getitems arnDict arn_path = Inr (PyStr (principalArn @ '','' @ roleArn @ others))"
    and "\<not> contains (CHR '','') principalArn" and "\<not> contains (CHR '','') roleArn"
    and "others = [] \<or> hd others = CHR '',''"
  shows "snd (awsAssumeRole lib net samlb64enc log) =
           log @ [GET (''https://sts.amazonaws.com/?Version=2011-06-15&Action=AssumeRoleWithSAML''
                       @ ''&RoleArn='' @ roleArn @ ''&PrincipalArn='' @ principalArn
                       @ ''&SAMLAssertion='' @ quote_plus samlb64enc)]"
proof -
  from split_sep_two [OF assms(4,5,6)] obtain segments where
    "split_sep (CHR '','') (principalArn @ CHR '','' # roleArn @ others)
       = principalArn # roleArn # segments"
    by blast
  then have "split_sep (CHR '','') (principalArn @ '','' @ roleArn @ others)
       = principalArn # roleArn # segments"
    by simp
  from awsAssumeRole_split [OF assms(1,2,3) this, of net log] show ?thesis
    by (simp add: sts_url_def split: sum.splits)
qed

text \<open>The example of the specification: a SAML provider and a role of one account.\<close>

theorem awsAssumeRole_arns_example:
  "snd (awsAssumeRole mock_lib mock_net example_assertion []) =
     [GET (''https://sts.amazonaws.com/?Version=2011-06-15&Action=AssumeRoleWithSAML''
           @ ''&RoleArn=arn:aws:iam::111111111111:role/ExampleRole''
           @ ''&PrincipalArn=arn:aws:iam::111111111111:saml-provider/Example''
           @ ''&SAMLAssertion='' @ quote_plus example_assertion)]"
proof -
  have 4: "\<not> contains (CHR '','') ''arn:aws:iam::111111111111:saml-provider/Example''"
    "\<not> contains (CHR '','') ''arn:aws:iam::111111111111:role/ExampleRole''"
    by (simp_all add: contains_def)
  have 6: "([] :: string) = [] \<or> hd [] = CHR '',''" by simp
  show ?thesis
    using awsAssumeRole_arns [where lib = mock_lib and net = mock_net and log = "[]",
        OF mock_b64decode(1) mock_xmltodict(1) example_arn_text 4 6]
    by simp
qed

text \<open>
  C5, as the code has it. When the attribute value of the assertion holds no comma,
  \<^verbatim>\<open>arnStr.split(",")\<close> has one element and its index 1 raises
  \<^verbatim>\<open>IndexError\<close>, before any request to STS. The program has no error of its own
  for a malformed pair.
\<close>

theorem awsAssumeRole_single_segment:
  assumes "b64decode lib samlb64enc = Inr decoded"
    and "xmltodict_parse lib decoded = Inr arnDict"
    and "py_getitems arnDict arn_path = Inr (PyStr arnStr)"
    and "\<not> contains (CHR '','') arnStr"
  shows "awsAssumeRole lib net samlb64enc log = (Inl IndexError, log)"
  using assms
  by (simp add: awsAssumeRole_def io_simps py_split_def list_getitem_def split_sep_absent)

text \<open>An assertion whose first attribute is the session name, not the pair of ARNs.\<close>

theorem awsAssumeRole_single_segment_example:
  "awsAssumeRole mock_lib mock_net swapped_assertion [] = (Inl IndexError, [])"
proof -
  have 4: "\<not> contains (CHR '','') ''user''" by (simp add: contains_def)
  show ?thesis
    using awsAssumeRole_single_segment [where lib = mock_lib and net = mock_net and log = "[]",
        OF mock_b64decode(2) mock_xmltodict(2) swapped_arn_text 4] .
qed

text \<open>The same assertion after an earlier request: the exception is \<^verbatim>\<open>IndexError\<close>.\<close>

theorem awsAssumeRole_IndexError:
  "fst (awsAssumeRole mock_lib mock_net swapped_assertion [GET ''https://example.com'']) = Inl IndexError"
  by code_simp




subsection \<open>The requests to Okta\<close>

text \<open>
  Whatever the outcome, \<^verbatim>\<open>oktaAuth\<close> makes exactly one request: a POST to the
  origin followed by \<^verbatim>\<open>/api/v1/authn\<close>, with the header
  \<^verbatim>\<open>Content-Type: application/json; charset=utf-8\<close> and the JSON text of the
  user name and the password as its body.
\<close>

theorem oktaAuth_request:
  "snd (oktaAuth lib net username password oktaUrl log) =
     log @ [POST (oktaUrl @ ''/api/v1/authn'')
              [(''Content-Type'', ''application/json; charset=utf-8'')]
              (json_dumps lib (PyDict [(''username'', PyStr username),
                                       (''password'', PyStr password)]))]"
  by (simp add: oktaAuth_def Let_def io_simps split: sum.splits)

theorem oktaAuth_request_example:
  "snd (oktaAuth mock_lib mock_net ''alice'' ''wrong'' ''https://okta.example.com'' []) =
     [POST ''https://okta.example.com/api/v1/authn''
        [(''Content-Type'', ''application/json; charset=utf-8'')]
        ''{\"username\": \"alice\", \"password\": \"wrong\"}'']"
  using oktaAuth_request [of mock_lib mock_net "''alice''" "''wrong''"
      "''https://okta.example.com''" "[]"]
  by (simp add: mock_lib_def mock_json_dumps_def)

text \<open>
  Given a session token that is a string, \<^verbatim>\<open>oktaGetSamlResponse\<close> makes
  exactly one request, whatever the outcome: a GET to the origin followed by
  \<^verbatim>\<open>/login/sessionCookieRedirect?checkAccountSetupComplete=true&token=\<close>, the
  token, \<^verbatim>\<open>&redirectUrl=\<close> and the forward URL, none of them quoted.
\<close>

theorem oktaGetSamlResponse_request:
  "snd (oktaGetSamlResponse lib net oktaUrl (PyStr token) oktaForwardUrl log) =
     log @ [GET (oktaUrl
              @ ''/login/sessionCookieRedirect?checkAccountSetupComplete=true&token=''
              @ token @ ''&redirectUrl='' @ oktaForwardUrl)]"
  by (simp add: oktaGetSamlResponse_unfold split: sum.splits)

theorem oktaGetSamlResponse_request_example:
  "snd (oktaGetSamlResponse mock_lib mock_net ''https://okta.example.com'' (PyStr ''abc123'')
          ''https://okta.example.com/home'' []) =
     [GET (''https://okta.example.com/login/sessionCookieRedirect''
           @ ''?checkAccountSetupComplete=true&token=abc123''
           @ ''&redirectUrl=https://okta.example.com/home'')]"
  using oktaGetSamlResponse_request [of mock_lib mock_net "''https://okta.example.com''"
      "''abc123''" "''https://okta.example.com/home''" "[]"]
  by simp

subsection \<open>\<^verbatim>\<open>assume\<close>: the four stages in sequence\<close>

text \<open>
  C1. \<^verbatim>\<open>assume\<close> resolves the origin from the forward URL, authenticates with
  that origin, retrieves the SAML response with that origin and the session token, and
  assumes the role with that response. The first stage that raises ends the run: its
  exception is the result, unchanged, and the requests made are those made up to then,
  so no later stage has run.
\<close>

theorem assume_sequential:
  "assume' lib net username password oktaForwardUrl log =
     (case getOktaUrl lib oktaForwardUrl of
        Inl e \<Rightarrow> (Inl e, log)
      | Inr oktaUrl \<Rightarrow>
          (case oktaAuth lib net username password oktaUrl log of
             (Inl e, log1) \<Rightarrow> (Inl e, log1)
           | (Inr sessionToken, log1) \<Rightarrow>
               (case oktaGetSamlResponse lib net oktaUrl sessionToken oktaForwardUrl log1 of
                  (Inl e, log2) \<Rightarrow> (Inl e, log2)
                | (Inr samlb64enc, log2) \<Rightarrow> awsAssumeRole lib net samlb64enc log2)))"
  by (simp add: assume'_def io_bind_def io_lift_def split: sum.splits prod.splits)

text \<open>
  Five runs against the mocked servers: one that succeeds with three requests, and one
  that fails in each of the four stages, with the requests of the stages before it and
  none of the stages after it.
\<close>

theorem assume_sequential_example:
  "assume' mock_lib mock_net ''alice'' ''s3cret'' second_forward_url [] =
     (Inr example_credentials,
      [POST ''https://okta.example.com/api/v1/authn''
         [(''Content-Type'', ''application/json; charset=utf-8'')]
         ''{\"username\": \"alice\", \"password\": \"s3cret\"}'',
       GET (saml_redirect_url second_forward_url),
       GET (''https://sts.amazonaws.com/?Version=2011-06-15&Action=AssumeRoleWithSAML''
           @ ''&RoleArn=arn:aws:iam::111111111111:role/ExampleRole''
           @ ''&PrincipalArn=arn:aws:iam::111111111111:saml-provider/Example''
           @ ''&SAMLAssertion='' @ quote_plus example_assertion)])
   \<and> assume' mock_lib mock_net ''alice'' ''s3cret'' ''http://[::1'' [] = (Inl ValueError, [])
   \<and> assume' mock_lib mock_net ''alice'' ''wrong'' second_forward_url [] =
     (Inl KeyError,
      [POST ''https://okta.example.com/api/v1/authn''
         [(''Content-Type'', ''application/json; charset=utf-8'')]
         ''{\"username\": \"alice\", \"password\": \"wrong\"}''])
   \<and> assume' mock_lib mock_net ''alice'' ''s3cret'' third_forward_url [] =
     (Inl TypeError,
      [POST ''https://okta.example.com/api/v1/authn''
         [(''Content-Type'', ''application/json; charset=utf-8'')]
         ''{\"username\": \"alice\", \"password\": \"s3cret\"}'',
       GET (saml_redirect_url third_forward_url)])
   \<and> assume' mock_lib mock_net ''alice'' ''s3cret'' example_forward_url [] =
     (Inl ExpatError,
      [POST ''https://okta.example.com/api/v1/authn''
         [(''Content-Type'', ''application/json; charset=utf-8'')]
         ''{\"username\": \"alice\", \"password\": \"s3cret\"}'',
       GET (saml_redirect_url example_forward_url)])"
  unfolding assume_sequential
  by (simp add: mock_origin mock_oktaAuth mock_oktaAuth_wrong mock_saml_example
      mock_saml_second mock_saml_third mock_aws mock_aws_not_xml)

end
